theory Spec2Isabelle
  imports Main "HOL-Library.Multiset"
begin

section \<open>Python values, failures and list subscripts\<close>

text \<open>
  The program is one Python class, \<open>RubicsCube\<close> (file \<open>ev.rubic.py\<close>).  A cell is a
  Python list of seven integers, a layer and a ring ("side") are lists of eight cells,
  and the cube is a list of three layers.  Every subscript of the source is modelled by
  \<open>py_get\<close> and \<open>py_set\<close>, which fail with \<open>IndexError\<close> where Python does and wrap
  negative indices as Python does.  A call of \<open>exit()\<close> is the failure \<open>SystemExit\<close>;
  a subscript applied to an integer is \<open>TypeError\<close>.  \<open>copy.deepcopy\<close> is the identity on
  values.  Console output is not modelled.  A leading underscore of a source name is
  dropped (\<open>_side_get\<close> is \<open>side_get\<close>).
\<close>

datatype error = IndexError | TypeError | SystemExit

type_synonym cell = "int list"
type_synonym layer = "cell list"
type_synonym side = "cell list"

definition bnd :: "error + 'a \<Rightarrow> ('a \<Rightarrow> error + 'b) \<Rightarrow> error + 'b" where
  "bnd m k = (case m of Inl e \<Rightarrow> Inl e | Inr v \<Rightarrow> k v)"

definition py_index :: "nat \<Rightarrow> int \<Rightarrow> nat option" where
  "py_index n i =
     (if 0 \<le> i \<and> i < int n then Some (nat i)
      else if - int n \<le> i \<and> i < 0 then Some (nat (int n + i))
      else None)"

definition py_get :: "'a list \<Rightarrow> int \<Rightarrow> error + 'a" where
  "py_get xs i = (case py_index (length xs) i of None \<Rightarrow> Inl IndexError | Some j \<Rightarrow> Inr (xs ! j))"

definition py_set :: "'a list \<Rightarrow> int \<Rightarrow> 'a \<Rightarrow> error + 'a list" where
  "py_set xs i v = (case py_index (length xs) i of None \<Rightarrow> Inl IndexError | Some j \<Rightarrow> Inr (xs[j := v]))"

section \<open>Constants of the module\<close>

abbreviation (input) CUBE_WHITE :: int where "CUBE_WHITE \<equiv> 1"
abbreviation (input) CUBE_YELLOW :: int where "CUBE_YELLOW \<equiv> 2"
abbreviation (input) CUBE_RED :: int where "CUBE_RED \<equiv> 3"
abbreviation (input) CUBE_GREEN :: int where "CUBE_GREEN \<equiv> 4"
abbreviation (input) CUBE_ORANGE :: int where "CUBE_ORANGE \<equiv> 5"
abbreviation (input) CUBE_BLUE :: int where "CUBE_BLUE \<equiv> 6"

abbreviation (input) CUBE_DELAY :: int where "CUBE_DELAY \<equiv> 100"

abbreviation (input) ROTATE_CLOCKWISE :: int where "ROTATE_CLOCKWISE \<equiv> 0"
abbreviation (input) ROTATE_COUNTER :: int where "ROTATE_COUNTER \<equiv> 1"

abbreviation (input) CUBE_TOP :: int where "CUBE_TOP \<equiv> 0"
abbreviation (input) CUBE_MIDDLE :: int where "CUBE_MIDDLE \<equiv> 1"
abbreviation (input) CUBE_BOTTOM :: int where "CUBE_BOTTOM \<equiv> 2"

abbreviation (input) CUBE_NULL :: int where "CUBE_NULL \<equiv> 0"
abbreviation (input) CUBE_EDGE :: int where "CUBE_EDGE \<equiv> 1"
abbreviation (input) CUBE_CORNER :: int where "CUBE_CORNER \<equiv> 2"
abbreviation (input) CUBE_ID :: int where "CUBE_ID \<equiv> 3"

abbreviation (input) CUBE_TYPE :: int where "CUBE_TYPE \<equiv> 0"
abbreviation (input) CUBE_ID_0 :: int where "CUBE_ID_0 \<equiv> 1"
abbreviation (input) CUBE_ID_SPACER :: int where "CUBE_ID_SPACER \<equiv> 9"

abbreviation (input) CUBE_EDGE_0 :: int where "CUBE_EDGE_0 \<equiv> 1"
abbreviation (input) CUBE_EDGE_1 :: int where "CUBE_EDGE_1 \<equiv> 2"
abbreviation (input) CUBE_EDGE_FACE_0 :: int where "CUBE_EDGE_FACE_0 \<equiv> 3"
abbreviation (input) CUBE_EDGE_FACE_1 :: int where "CUBE_EDGE_FACE_1 \<equiv> 4"

abbreviation (input) CUBE_CORNER_0 :: int where "CUBE_CORNER_0 \<equiv> 1"
abbreviation (input) CUBE_CORNER_1 :: int where "CUBE_CORNER_1 \<equiv> 2"
abbreviation (input) CUBE_CORNER_2 :: int where "CUBE_CORNER_2 \<equiv> 3"
abbreviation (input) CUBE_CORNER_FACE_0 :: int where "CUBE_CORNER_FACE_0 \<equiv> 4"
abbreviation (input) CUBE_CORNER_FACE_1 :: int where "CUBE_CORNER_FACE_1 \<equiv> 5"
abbreviation (input) CUBE_CORNER_FACE_2 :: int where "CUBE_CORNER_FACE_2 \<equiv> 6"

definition CUBE_NIL :: cell where
  "CUBE_NIL = [CUBE_NULL, CUBE_NULL, CUBE_NULL, CUBE_NULL, CUBE_NULL, CUBE_NULL, CUBE_NULL, CUBE_NULL]"

text \<open>The clock positions of a ring, \<open>_SIDE_INDEX_0000\<close> to \<open>_SIDE_INDEX_1030\<close>.\<close>

abbreviation (input) SIDE_INDEX_0000 :: int where "SIDE_INDEX_0000 \<equiv> 0"
abbreviation (input) SIDE_INDEX_0130 :: int where "SIDE_INDEX_0130 \<equiv> 1"
abbreviation (input) SIDE_INDEX_0300 :: int where "SIDE_INDEX_0300 \<equiv> 2"
abbreviation (input) SIDE_INDEX_0430 :: int where "SIDE_INDEX_0430 \<equiv> 3"
abbreviation (input) SIDE_INDEX_0600 :: int where "SIDE_INDEX_0600 \<equiv> 4"
abbreviation (input) SIDE_INDEX_0730 :: int where "SIDE_INDEX_0730 \<equiv> 5"
abbreviation (input) SIDE_INDEX_0900 :: int where "SIDE_INDEX_0900 \<equiv> 6"
abbreviation (input) SIDE_INDEX_1030 :: int where "SIDE_INDEX_1030 \<equiv> 7"

text \<open>
  The tables \<open>_SIDE_WHITE\<close> to \<open>_SIDE_BLUE\<close>: for each clock position of the ring of a
  face, the index of the cell inside its layer (the values of the constants
  \<open>_SIDE_WHITE_0000_T\<close>, \<open>_SIDE_WHITE_0130_T\<close> and so on, in the order of the source).
\<close>

definition SIDE_WHITE :: "int list" where "SIDE_WHITE = [0, 1, 2, 3, 4, 5, 6, 7]"
definition SIDE_YELLOW :: "int list" where "SIDE_YELLOW = [0, 7, 6, 5, 4, 3, 2, 1]"
definition SIDE_RED :: "int list" where "SIDE_RED = [0, 7, 7, 7, 0, 1, 1, 1]"
definition SIDE_GREEN :: "int list" where "SIDE_GREEN = [2, 1, 1, 1, 2, 3, 3, 3]"
definition SIDE_ORANGE :: "int list" where "SIDE_ORANGE = [4, 3, 3, 3, 4, 5, 5, 5]"
definition SIDE_BLUE :: "int list" where "SIDE_BLUE = [6, 5, 5, 5, 6, 7, 7, 7]"

text \<open>
  \<open>_SIDE_INDEX = [ 0, _SIDE_WHITE, ..., _SIDE_BLUE ]\<close> holds an integer at index 0 and
  a table at the indices 1 to 6.
\<close>

datatype index_entry = Number int | Table "int list"

definition SIDE_INDEX :: "index_entry list" where
  "SIDE_INDEX = [Number 0, Table SIDE_WHITE, Table SIDE_YELLOW, Table SIDE_RED,
                 Table SIDE_GREEN, Table SIDE_ORANGE, Table SIDE_BLUE]"

text \<open>The expression \<open>RubicsCube._SIDE_INDEX[ side_id_P ][ k ]\<close>.\<close>

definition side_index :: "int \<Rightarrow> int \<Rightarrow> error + int" where
  "side_index side_id_P k =
     bnd (py_get SIDE_INDEX side_id_P)
       (\<lambda>entry. case entry of Number n \<Rightarrow> Inl TypeError | Table t \<Rightarrow> py_get t k)"

text \<open>The cells of the solved cube.\<close>

definition CUBE_WR :: cell where "CUBE_WR = [CUBE_EDGE, CUBE_WHITE, CUBE_RED, CUBE_WHITE, CUBE_RED, CUBE_ID_SPACER, CUBE_ID_SPACER]"
definition CUBE_WG :: cell where "CUBE_WG = [CUBE_EDGE, CUBE_WHITE, CUBE_GREEN, CUBE_WHITE, CUBE_GREEN, CUBE_ID_SPACER, CUBE_ID_SPACER]"
definition CUBE_WO :: cell where "CUBE_WO = [CUBE_EDGE, CUBE_WHITE, CUBE_ORANGE, CUBE_WHITE, CUBE_ORANGE, CUBE_ID_SPACER, CUBE_ID_SPACER]"
definition CUBE_WB :: cell where "CUBE_WB = [CUBE_EDGE, CUBE_WHITE, CUBE_BLUE, CUBE_WHITE, CUBE_BLUE, CUBE_ID_SPACER, CUBE_ID_SPACER]"
definition CUBE_WRG :: cell where "CUBE_WRG = [CUBE_CORNER, CUBE_WHITE, CUBE_RED, CUBE_GREEN, CUBE_WHITE, CUBE_RED, CUBE_GREEN]"
definition CUBE_WGO :: cell where "CUBE_WGO = [CUBE_CORNER, CUBE_WHITE, CUBE_GREEN, CUBE_ORANGE, CUBE_WHITE, CUBE_GREEN, CUBE_ORANGE]"
definition CUBE_WOB :: cell where "CUBE_WOB = [CUBE_CORNER, CUBE_WHITE, CUBE_ORANGE, CUBE_BLUE, CUBE_WHITE, CUBE_ORANGE, CUBE_BLUE]"
definition CUBE_WBR :: cell where "CUBE_WBR = [CUBE_CORNER, CUBE_WHITE, CUBE_BLUE, CUBE_RED, CUBE_WHITE, CUBE_BLUE, CUBE_RED]"

definition CUBE_RGM :: cell where "CUBE_RGM = [CUBE_EDGE, CUBE_RED, CUBE_GREEN, CUBE_RED, CUBE_GREEN, CUBE_ID_SPACER, CUBE_ID_SPACER]"
definition CUBE_GOM :: cell where "CUBE_GOM = [CUBE_EDGE, CUBE_GREEN, CUBE_ORANGE, CUBE_GREEN, CUBE_ORANGE, CUBE_ID_SPACER, CUBE_ID_SPACER]"
definition CUBE_OBM :: cell where "CUBE_OBM = [CUBE_EDGE, CUBE_ORANGE, CUBE_BLUE, CUBE_ORANGE, CUBE_BLUE, CUBE_ID_SPACER, CUBE_ID_SPACER]"
definition CUBE_BRM :: cell where "CUBE_BRM = [CUBE_EDGE, CUBE_BLUE, CUBE_RED, CUBE_BLUE, CUBE_RED, CUBE_ID_SPACER, CUBE_ID_SPACER]"

definition CUBE_YR :: cell where "CUBE_YR = [CUBE_EDGE, CUBE_YELLOW, CUBE_RED, CUBE_YELLOW, CUBE_RED, CUBE_ID_SPACER, CUBE_ID_SPACER]"
definition CUBE_YG :: cell where "CUBE_YG = [CUBE_EDGE, CUBE_YELLOW, CUBE_GREEN, CUBE_YELLOW, CUBE_GREEN, CUBE_ID_SPACER, CUBE_ID_SPACER]"
definition CUBE_YO :: cell where "CUBE_YO = [CUBE_EDGE, CUBE_YELLOW, CUBE_ORANGE, CUBE_YELLOW, CUBE_ORANGE, CUBE_ID_SPACER, CUBE_ID_SPACER]"
definition CUBE_YB :: cell where "CUBE_YB = [CUBE_EDGE, CUBE_YELLOW, CUBE_BLUE, CUBE_YELLOW, CUBE_BLUE, CUBE_ID_SPACER, CUBE_ID_SPACER]"
definition CUBE_YGR :: cell where "CUBE_YGR = [CUBE_CORNER, CUBE_YELLOW, CUBE_GREEN, CUBE_RED, CUBE_YELLOW, CUBE_GREEN, CUBE_RED]"
definition CUBE_YOG :: cell where "CUBE_YOG = [CUBE_CORNER, CUBE_YELLOW, CUBE_ORANGE, CUBE_GREEN, CUBE_YELLOW, CUBE_ORANGE, CUBE_GREEN]"
definition CUBE_YBO :: cell where "CUBE_YBO = [CUBE_CORNER, CUBE_YELLOW, CUBE_BLUE, CUBE_ORANGE, CUBE_YELLOW, CUBE_BLUE, CUBE_ORANGE]"
definition CUBE_YRB :: cell where "CUBE_YRB = [CUBE_CORNER, CUBE_YELLOW, CUBE_RED, CUBE_BLUE, CUBE_YELLOW, CUBE_RED, CUBE_BLUE]"

definition CUBE_RED_ID :: cell where "CUBE_RED_ID = [CUBE_ID, CUBE_RED, CUBE_RED, CUBE_ID_SPACER, CUBE_ID_SPACER, CUBE_ID_SPACER, CUBE_ID_SPACER]"
definition CUBE_GED :: cell where "CUBE_GED = [CUBE_ID, CUBE_GREEN, CUBE_GREEN, CUBE_ID_SPACER, CUBE_ID_SPACER, CUBE_ID_SPACER, CUBE_ID_SPACER]"
definition CUBE_OED :: cell where "CUBE_OED = [CUBE_ID, CUBE_ORANGE, CUBE_ORANGE, CUBE_ID_SPACER, CUBE_ID_SPACER, CUBE_ID_SPACER, CUBE_ID_SPACER]"
definition CUBE_BED :: cell where "CUBE_BED = [CUBE_ID, CUBE_BLUE, CUBE_BLUE, CUBE_ID_SPACER, CUBE_ID_SPACER, CUBE_ID_SPACER, CUBE_ID_SPACER]"

section \<open>The cube object\<close>

text \<open>
  The object holds \<open>_cube\<close>, the three layers, and \<open>_cube_solved\<close>, the copy taken by the
  constructor.  The attributes \<open>_0000\<close> to \<open>_1030\<close> are scratch cells: \<open>_side_deepcopy\<close>
  assigns all eight at the start of each pass before any of them is read, so they are
  the record \<open>scratch\<close> that \<open>side_deepcopy\<close> returns and the pass threads along.
\<close>

record rubics_cube =
  cube :: "layer list"
  cube_solved :: "layer list"

record scratch =
  s1030 :: cell
  s0000 :: cell
  s0130 :: cell
  s0300 :: cell
  s0430 :: cell
  s0600 :: cell
  s0730 :: cell
  s0900 :: cell

text \<open>
  The constructor \<open>__init__\<close>.  (The module-level cell of the red centre is named
  \<open>_CUBE_RED\<close> in the source; it is \<open>CUBE_RED_ID\<close> here, since \<open>CUBE_RED\<close> is the colour.)
\<close>

definition init_bot :: layer where
  "init_bot = [CUBE_YR, CUBE_YGR, CUBE_YG, CUBE_YOG, CUBE_YO, CUBE_YBO, CUBE_YB, CUBE_YRB]"

definition init_mid :: layer where
  "init_mid = [CUBE_RED_ID, CUBE_RGM, CUBE_GED, CUBE_GOM, CUBE_OED, CUBE_OBM, CUBE_BED, CUBE_BRM]"

definition init_top :: layer where
  "init_top = [CUBE_WR, CUBE_WRG, CUBE_WG, CUBE_WGO, CUBE_WO, CUBE_WOB, CUBE_WB, CUBE_WBR]"

definition RubicsCube :: rubics_cube where
  "RubicsCube = \<lparr> cube = [init_top, init_mid, init_bot], cube_solved = [init_top, init_mid, init_bot] \<rparr>"

text \<open>
  A method that changes the object returns \<open>Inr\<close> the new object, or \<open>Inl\<close> the failure
  together with the object as it is when the failure is raised.
\<close>

type_synonym outcome = "(error \<times> rubics_cube) + rubics_cube"

definition and_then :: "outcome \<Rightarrow> (rubics_cube \<Rightarrow> outcome) \<Rightarrow> outcome" where
  "and_then r k = (case r of Inl x \<Rightarrow> Inl x | Inr s \<Rightarrow> k s)"

section \<open>Reading and writing a ring\<close>

text \<open>One line of \<open>_side_get\<close>: \<open>side[ k ] = copy.deepcopy( lay[ _SIDE_INDEX[ side_id_P ][ k ]] )\<close>.\<close>

definition side_get_slot :: "layer \<Rightarrow> int \<Rightarrow> int \<Rightarrow> side \<Rightarrow> error + side" where
  "side_get_slot lay side_id_P k sd =
     bnd (side_index side_id_P k) (\<lambda>i. bnd (py_get lay i) (\<lambda>c. py_set sd k c))"

definition side_get :: "rubics_cube \<Rightarrow> int \<Rightarrow> error + side" where
  "side_get self side_id_P =
     bnd (py_get (cube self) CUBE_TOP) (\<lambda>top0.
     bnd (py_get (cube self) CUBE_MIDDLE) (\<lambda>mid0.
     bnd (py_get (cube self) CUBE_BOTTOM) (\<lambda>bot0.
     let sd = [CUBE_NIL, CUBE_NIL, CUBE_NIL, CUBE_NIL, CUBE_NIL, CUBE_NIL, CUBE_NIL, CUBE_NIL];
         (top, mid, bot) =
           (if side_id_P = CUBE_WHITE then (top0, top0, top0)
            else if side_id_P = CUBE_YELLOW then (bot0, bot0, bot0)
            else (top0, mid0, bot0))
     in
     bnd (side_get_slot top side_id_P SIDE_INDEX_0000 sd) (\<lambda>sd.
     bnd (side_get_slot top side_id_P SIDE_INDEX_0130 sd) (\<lambda>sd.
     bnd (side_get_slot mid side_id_P SIDE_INDEX_0300 sd) (\<lambda>sd.
     bnd (side_get_slot bot side_id_P SIDE_INDEX_0430 sd) (\<lambda>sd.
     bnd (side_get_slot bot side_id_P SIDE_INDEX_0600 sd) (\<lambda>sd.
     bnd (side_get_slot bot side_id_P SIDE_INDEX_0730 sd) (\<lambda>sd.
     bnd (side_get_slot mid side_id_P SIDE_INDEX_0900 sd) (\<lambda>sd.
     side_get_slot top side_id_P SIDE_INDEX_1030 sd))))))))))"

text \<open>
  One line of \<open>_side_put\<close>:
  \<open>self._cube[ lay_id ][ _SIDE_INDEX[ side_id_P ][ k ]] = copy.deepcopy( side_P[ k ] )\<close>.
  The right-hand side is evaluated first, then the layer, then the index; the store
  changes the layer in place.
\<close>

definition side_put_slot :: "int \<Rightarrow> int \<Rightarrow> side \<Rightarrow> int \<Rightarrow> rubics_cube \<Rightarrow> outcome" where
  "side_put_slot lay_id side_id_P side_P k self =
     (case bnd (py_get side_P k) (\<lambda>c.
           bnd (py_get (cube self) lay_id) (\<lambda>lay.
           bnd (side_index side_id_P k) (\<lambda>i.
           bnd (py_set lay i c) (\<lambda>lay'. py_set (cube self) lay_id lay'))))
      of Inl e \<Rightarrow> Inl (e, self)
       | Inr cb \<Rightarrow> Inr (self\<lparr>cube := cb\<rparr>))"

definition side_put :: "rubics_cube \<Rightarrow> int \<Rightarrow> side \<Rightarrow> outcome" where
  "side_put self side_id_P side_P =
     (let top_id = CUBE_TOP;
          mid_id = CUBE_MIDDLE;
          bot_id = CUBE_BOTTOM;
          (mid_id, bot_id) = (if side_id_P = CUBE_WHITE then (CUBE_TOP, CUBE_TOP) else (mid_id, bot_id));
          (top_id, mid_id) = (if side_id_P = CUBE_YELLOW then (CUBE_BOTTOM, CUBE_BOTTOM) else (top_id, mid_id))
      in
      and_then (side_put_slot top_id side_id_P side_P SIDE_INDEX_0000 self) (\<lambda>self.
      and_then (side_put_slot top_id side_id_P side_P SIDE_INDEX_0130 self) (\<lambda>self.
      and_then (side_put_slot mid_id side_id_P side_P SIDE_INDEX_0300 self) (\<lambda>self.
      and_then (side_put_slot bot_id side_id_P side_P SIDE_INDEX_0430 self) (\<lambda>self.
      and_then (side_put_slot bot_id side_id_P side_P SIDE_INDEX_0600 self) (\<lambda>self.
      and_then (side_put_slot bot_id side_id_P side_P SIDE_INDEX_0730 self) (\<lambda>self.
      and_then (side_put_slot mid_id side_id_P side_P SIDE_INDEX_0900 self) (\<lambda>self.
      side_put_slot top_id side_id_P side_P SIDE_INDEX_1030 self))))))))"

section \<open>The colour shown on a face\<close>

text \<open>The expression \<open>side_P[ side_index_P ][ slot ]\<close>.\<close>

definition side_cell_slot :: "side \<Rightarrow> int \<Rightarrow> int \<Rightarrow> error + int" where
  "side_cell_slot side_P side_index_P slot = bnd (py_get side_P side_index_P) (\<lambda>c. py_get c slot)"

definition side_edge_color_get :: "int \<Rightarrow> side \<Rightarrow> int \<Rightarrow> error + int" where
  "side_edge_color_get side_id_P side_P side_index_P =
     bnd (side_cell_slot side_P side_index_P CUBE_EDGE_FACE_0) (\<lambda>f0.
     if side_id_P = f0 then side_cell_slot side_P side_index_P CUBE_EDGE_0
     else bnd (side_cell_slot side_P side_index_P CUBE_EDGE_FACE_1) (\<lambda>f1.
     if side_id_P = f1 then side_cell_slot side_P side_index_P CUBE_EDGE_1
     else Inl SystemExit))"

definition side_corner_color_get :: "int \<Rightarrow> side \<Rightarrow> int \<Rightarrow> error + int" where
  "side_corner_color_get side_id_P side_P side_index_P =
     bnd (side_cell_slot side_P side_index_P CUBE_CORNER_FACE_0) (\<lambda>f0.
     if side_id_P = f0 then side_cell_slot side_P side_index_P CUBE_CORNER_0
     else bnd (side_cell_slot side_P side_index_P CUBE_CORNER_FACE_1) (\<lambda>f1.
     if side_id_P = f1 then side_cell_slot side_P side_index_P CUBE_CORNER_1
     else bnd (side_cell_slot side_P side_index_P CUBE_CORNER_FACE_2) (\<lambda>f2.
     if side_id_P = f2 then side_cell_slot side_P side_index_P CUBE_CORNER_2
     else Inl SystemExit)))"

section \<open>The face a sticker turns to\<close>

definition side_edge_white :: "int \<Rightarrow> int \<Rightarrow> error + int" where
  "side_edge_white direction_P face_color_P =
     (if direction_P = ROTATE_CLOCKWISE then
        (if face_color_P = CUBE_RED then Inr CUBE_GREEN
         else if face_color_P = CUBE_GREEN then Inr CUBE_ORANGE
         else if face_color_P = CUBE_ORANGE then Inr CUBE_BLUE
         else if face_color_P = CUBE_BLUE then Inr CUBE_RED
         else Inl SystemExit)
      else
        (if face_color_P = CUBE_RED then Inr CUBE_BLUE
         else if face_color_P = CUBE_BLUE then Inr CUBE_ORANGE
         else if face_color_P = CUBE_ORANGE then Inr CUBE_GREEN
         else if face_color_P = CUBE_GREEN then Inr CUBE_RED
         else Inl SystemExit))"

definition side_edge_yellow :: "int \<Rightarrow> int \<Rightarrow> error + int" where
  "side_edge_yellow direction_P face_color_P =
     (let direction = (if direction_P = ROTATE_CLOCKWISE then ROTATE_COUNTER else ROTATE_CLOCKWISE)
      in side_edge_white direction face_color_P)"

definition side_edge_red :: "int \<Rightarrow> int \<Rightarrow> error + int" where
  "side_edge_red direction_P face_color_P =
     (if direction_P = ROTATE_CLOCKWISE then
        (if face_color_P = CUBE_WHITE then Inr CUBE_BLUE
         else if face_color_P = CUBE_BLUE then Inr CUBE_YELLOW
         else if face_color_P = CUBE_YELLOW then Inr CUBE_GREEN
         else if face_color_P = CUBE_GREEN then Inr CUBE_WHITE
         else Inl SystemExit)
      else
        (if face_color_P = CUBE_WHITE then Inr CUBE_GREEN
         else if face_color_P = CUBE_GREEN then Inr CUBE_YELLOW
         else if face_color_P = CUBE_YELLOW then Inr CUBE_BLUE
         else if face_color_P = CUBE_BLUE then Inr CUBE_WHITE
         else Inl SystemExit))"

definition side_edge_orange :: "int \<Rightarrow> int \<Rightarrow> error + int" where
  "side_edge_orange direction_P face_color_P =
     (let direction = (if direction_P = ROTATE_CLOCKWISE then ROTATE_COUNTER else ROTATE_CLOCKWISE)
      in side_edge_red direction face_color_P)"

definition side_edge_green :: "int \<Rightarrow> int \<Rightarrow> error + int" where
  "side_edge_green direction_P face_color_P =
     (if direction_P = ROTATE_CLOCKWISE then
        (if face_color_P = CUBE_WHITE then Inr CUBE_RED
         else if face_color_P = CUBE_RED then Inr CUBE_YELLOW
         else if face_color_P = CUBE_YELLOW then Inr CUBE_ORANGE
         else if face_color_P = CUBE_ORANGE then Inr CUBE_WHITE
         else Inl SystemExit)
      else
        (if face_color_P = CUBE_WHITE then Inr CUBE_ORANGE
         else if face_color_P = CUBE_ORANGE then Inr CUBE_YELLOW
         else if face_color_P = CUBE_YELLOW then Inr CUBE_RED
         else if face_color_P = CUBE_RED then Inr CUBE_WHITE
         else Inl SystemExit))"

definition side_edge_blue :: "int \<Rightarrow> int \<Rightarrow> error + int" where
  "side_edge_blue direction_P face_color_P =
     (let direction = (if direction_P = ROTATE_CLOCKWISE then ROTATE_COUNTER else ROTATE_CLOCKWISE)
      in side_edge_green direction face_color_P)"

definition side_edge_face_get :: "int \<Rightarrow> int \<Rightarrow> int \<Rightarrow> error + int" where
  "side_edge_face_get direction_P side_id_P face_color_P =
     (if side_id_P = CUBE_WHITE then side_edge_white direction_P face_color_P
      else if side_id_P = CUBE_YELLOW then side_edge_yellow direction_P face_color_P
      else if side_id_P = CUBE_RED then side_edge_red direction_P face_color_P
      else if side_id_P = CUBE_GREEN then side_edge_green direction_P face_color_P
      else if side_id_P = CUBE_ORANGE then side_edge_orange direction_P face_color_P
      else if side_id_P = CUBE_BLUE then side_edge_blue direction_P face_color_P
      else Inl SystemExit)"

section \<open>The rotation\<close>

definition side_deepcopy :: "side \<Rightarrow> error + scratch" where
  "side_deepcopy side_P =
     bnd (py_get side_P SIDE_INDEX_1030) (\<lambda>c1030.
     bnd (py_get side_P SIDE_INDEX_0000) (\<lambda>c0000.
     bnd (py_get side_P SIDE_INDEX_0130) (\<lambda>c0130.
     bnd (py_get side_P SIDE_INDEX_0300) (\<lambda>c0300.
     bnd (py_get side_P SIDE_INDEX_0430) (\<lambda>c0430.
     bnd (py_get side_P SIDE_INDEX_0600) (\<lambda>c0600.
     bnd (py_get side_P SIDE_INDEX_0730) (\<lambda>c0730.
     bnd (py_get side_P SIDE_INDEX_0900) (\<lambda>c0900.
     Inr \<lparr> s1030 = c1030, s0000 = c0000, s0130 = c0130, s0300 = c0300,
           s0430 = c0430, s0600 = c0600, s0730 = c0730, s0900 = c0900 \<rparr>))))))))"

text \<open>
  \<open>_rotate_face_edge_plus_cube_delay\<close> changes \<open>cell_P\<close> in place; the model returns the
  cell.  When none of the three slots holds \<open>edge_P\<close> the source does nothing.
\<close>

definition rotate_face_edge_plus_cube_delay :: "cell \<Rightarrow> int \<Rightarrow> cell \<Rightarrow> int \<Rightarrow> error + cell" where
  "rotate_face_edge_plus_cube_delay cell_P edge_P edge_cell_P edge_face_P =
     bnd (py_get cell_P CUBE_CORNER_FACE_0) (\<lambda>f0.
     if f0 = edge_P then
       bnd (py_get edge_cell_P edge_face_P) (\<lambda>v. py_set cell_P CUBE_CORNER_FACE_0 (v + CUBE_DELAY))
     else bnd (py_get cell_P CUBE_CORNER_FACE_1) (\<lambda>f1.
     if f1 = edge_P then
       bnd (py_get edge_cell_P edge_face_P) (\<lambda>v. py_set cell_P CUBE_CORNER_FACE_1 (v + CUBE_DELAY))
     else bnd (py_get cell_P CUBE_CORNER_FACE_2) (\<lambda>f2.
     if f2 = edge_P then
       bnd (py_get edge_cell_P edge_face_P) (\<lambda>v. py_set cell_P CUBE_CORNER_FACE_2 (v + CUBE_DELAY))
     else Inr cell_P)))"

text \<open>
  \<open>_rotate_face_edge\<close> changes its three cells in place; the model returns them (left
  corner, edge, right corner).  When neither face slot of the edge holds \<open>side_id_P\<close> the
  source does nothing.
\<close>

definition rotate_face_edge :: "int \<Rightarrow> int \<Rightarrow> cell \<Rightarrow> cell \<Rightarrow> cell \<Rightarrow> error + (cell \<times> cell \<times> cell)" where
  "rotate_face_edge side_id_P direction_P corner_left_P edge_P corner_right_P =
     bnd (py_get edge_P CUBE_EDGE_FACE_0) (\<lambda>f0.
     if f0 = side_id_P then
       bnd (py_get edge_P CUBE_EDGE_FACE_1) (\<lambda>edge.
       bnd (py_get edge_P CUBE_EDGE_FACE_1) (\<lambda>cur.
       bnd (side_edge_face_get direction_P side_id_P cur) (\<lambda>new.
       bnd (py_set edge_P CUBE_EDGE_FACE_1 new) (\<lambda>edge_P.
       bnd (rotate_face_edge_plus_cube_delay corner_left_P edge edge_P CUBE_EDGE_FACE_1) (\<lambda>corner_left_P.
       bnd (rotate_face_edge_plus_cube_delay corner_right_P edge edge_P CUBE_EDGE_FACE_1) (\<lambda>corner_right_P.
       Inr (corner_left_P, edge_P, corner_right_P)))))))
     else bnd (py_get edge_P CUBE_EDGE_FACE_1) (\<lambda>f1.
     if f1 = side_id_P then
       bnd (py_get edge_P CUBE_EDGE_FACE_0) (\<lambda>edge.
       bnd (py_get edge_P CUBE_EDGE_FACE_0) (\<lambda>cur.
       bnd (side_edge_face_get direction_P side_id_P cur) (\<lambda>new.
       bnd (py_set edge_P CUBE_EDGE_FACE_0 new) (\<lambda>edge_P.
       bnd (rotate_face_edge_plus_cube_delay corner_left_P edge edge_P CUBE_EDGE_FACE_0) (\<lambda>corner_left_P.
       bnd (rotate_face_edge_plus_cube_delay corner_right_P edge edge_P CUBE_EDGE_FACE_0) (\<lambda>corner_right_P.
       Inr (corner_left_P, edge_P, corner_right_P)))))))
     else Inr (corner_left_P, edge_P, corner_right_P)))"

definition face_minus_cube_delay_face :: "cell \<Rightarrow> int \<Rightarrow> error + cell" where
  "face_minus_cube_delay_face cell_P face_P =
     bnd (py_get cell_P face_P) (\<lambda>v.
     if v > CUBE_BLUE then bnd (py_get cell_P face_P) (\<lambda>w. py_set cell_P face_P (w - CUBE_DELAY))
     else Inr cell_P)"

definition face_minus_cube_delay :: "cell \<Rightarrow> error + cell" where
  "face_minus_cube_delay cell_P =
     bnd (face_minus_cube_delay_face cell_P CUBE_CORNER_FACE_0) (\<lambda>cell_P.
     bnd (face_minus_cube_delay_face cell_P CUBE_CORNER_FACE_1) (\<lambda>cell_P.
     face_minus_cube_delay_face cell_P CUBE_CORNER_FACE_2))"

definition side_assign :: "side \<Rightarrow> cell \<Rightarrow> cell \<Rightarrow> cell \<Rightarrow> cell \<Rightarrow> cell \<Rightarrow> cell \<Rightarrow> cell \<Rightarrow> cell \<Rightarrow> error + side" where
  "side_assign side_P c0000_P c0300_P c0600_P c0900_P c0130_P c0430_P c0730_P c1030_P =
     bnd (py_set side_P SIDE_INDEX_0000 c0000_P) (\<lambda>side_P.
     bnd (py_set side_P SIDE_INDEX_0300 c0300_P) (\<lambda>side_P.
     bnd (py_set side_P SIDE_INDEX_0600 c0600_P) (\<lambda>side_P.
     bnd (py_set side_P SIDE_INDEX_0900 c0900_P) (\<lambda>side_P.
     bnd (py_set side_P SIDE_INDEX_0130 c0130_P) (\<lambda>side_P.
     bnd (py_set side_P SIDE_INDEX_0430 c0430_P) (\<lambda>side_P.
     bnd (py_set side_P SIDE_INDEX_0730 c0730_P) (\<lambda>side_P.
     py_set side_P SIDE_INDEX_1030 c1030_P)))))))"

definition rotate_faces :: "int \<Rightarrow> int \<Rightarrow> side \<Rightarrow> error + side" where
  "rotate_faces direction_P side_id_P side_P =
     bnd (side_deepcopy side_P) (\<lambda>r.
     bnd (rotate_face_edge side_id_P direction_P (s1030 r) (s0000 r) (s0130 r)) (\<lambda>(cl, e, cr).
     let r = r\<lparr>s1030 := cl, s0000 := e, s0130 := cr\<rparr> in
     bnd (rotate_face_edge side_id_P direction_P (s0130 r) (s0300 r) (s0430 r)) (\<lambda>(cl, e, cr).
     let r = r\<lparr>s0130 := cl, s0300 := e, s0430 := cr\<rparr> in
     bnd (rotate_face_edge side_id_P direction_P (s0430 r) (s0600 r) (s0730 r)) (\<lambda>(cl, e, cr).
     let r = r\<lparr>s0430 := cl, s0600 := e, s0730 := cr\<rparr> in
     bnd (rotate_face_edge side_id_P direction_P (s0730 r) (s0900 r) (s1030 r)) (\<lambda>(cl, e, cr).
     let r = r\<lparr>s0730 := cl, s0900 := e, s1030 := cr\<rparr> in
     bnd (face_minus_cube_delay (s1030 r)) (\<lambda>c. let r = r\<lparr>s1030 := c\<rparr> in
     bnd (face_minus_cube_delay (s0130 r)) (\<lambda>c. let r = r\<lparr>s0130 := c\<rparr> in
     bnd (face_minus_cube_delay (s0430 r)) (\<lambda>c. let r = r\<lparr>s0430 := c\<rparr> in
     bnd (face_minus_cube_delay (s0730 r)) (\<lambda>c. let r = r\<lparr>s0730 := c\<rparr> in
     side_assign side_P (s0000 r) (s0300 r) (s0600 r) (s0900 r)
                        (s0130 r) (s0430 r) (s0730 r) (s1030 r))))))))))"

definition rotate_colors :: "int \<Rightarrow> int \<Rightarrow> side \<Rightarrow> error + side" where
  "rotate_colors direction_P side_id_P side_P =
     bnd (side_deepcopy side_P) (\<lambda>r.
     if direction_P = ROTATE_CLOCKWISE then
       side_assign side_P (s0900 r) (s0000 r) (s0300 r) (s0600 r)
                          (s1030 r) (s0130 r) (s0430 r) (s0730 r)
     else
       side_assign side_P (s0300 r) (s0600 r) (s0900 r) (s0000 r)
                          (s0430 r) (s0730 r) (s1030 r) (s0130 r))"

definition RotateSide :: "rubics_cube \<Rightarrow> int \<Rightarrow> int \<Rightarrow> outcome" where
  "RotateSide self side_id_P direction_P =
     (case side_get self side_id_P of
        Inl e \<Rightarrow> Inl (e, self)
      | Inr sd \<Rightarrow>
          (case rotate_faces direction_P side_id_P sd of
             Inl e \<Rightarrow> Inl (e, self)
           | Inr sd \<Rightarrow>
               (case rotate_colors direction_P side_id_P sd of
                  Inl e \<Rightarrow> Inl (e, self)
                | Inr sd \<Rightarrow> side_put self side_id_P sd)))"

section \<open>Reachable cubes, stickers and the ring of a face\<close>

text \<open>
  The cubes the program can hold: the newly constructed one, and every cube a successful
  call of \<open>RotateSide\<close> with one of the six colours and one of the two directions leaves.
\<close>

inductive reachable :: "rubics_cube \<Rightarrow> bool" where
  reachable_init: "reachable RubicsCube"
| reachable_rotate:
    "reachable s \<Longrightarrow> side_id_P \<in> {CUBE_WHITE, CUBE_YELLOW, CUBE_RED, CUBE_GREEN, CUBE_ORANGE, CUBE_BLUE} \<Longrightarrow>
     direction_P \<in> {ROTATE_CLOCKWISE, ROTATE_COUNTER} \<Longrightarrow>
     RotateSide s side_id_P direction_P = Inr s' \<Longrightarrow> reachable s'"

text \<open>
  The stickers a cell stores, by its kind (slot \<open>CUBE_TYPE\<close>): an edge has the colours of
  the slots \<open>CUBE_EDGE_0\<close> and \<open>CUBE_EDGE_1\<close>, a corner those of \<open>CUBE_CORNER_0\<close> to
  \<open>CUBE_CORNER_2\<close>, a centre the one of \<open>CUBE_ID_0\<close>.  These are the slots 1 to 2, 1 to 3
  and 1 after the kind.
\<close>

definition cell_stickers :: "cell \<Rightarrow> int list" where
  "cell_stickers c =
     (case c of
        [] \<Rightarrow> []
      | kind # slots \<Rightarrow>
          if kind = CUBE_EDGE then take 2 slots
          else if kind = CUBE_CORNER then take 3 slots
          else if kind = CUBE_ID then take 1 slots
          else [])"

definition cube_stickers :: "rubics_cube \<Rightarrow> int multiset" where
  "cube_stickers s = mset (concat (map cell_stickers (concat (cube s))))"

text \<open>
  The places of the ring of a face, as pairs (layer, index in the layer): the layer that
  \<open>_side_get\<close> and \<open>_side_put\<close> select for each clock position, and the index that the
  table of the face lists for it.
\<close>

definition ring_layers :: "int \<Rightarrow> nat list" where
  "ring_layers side_id_P =
     (if side_id_P = CUBE_WHITE then [0, 0, 0, 0, 0, 0, 0, 0]
      else if side_id_P = CUBE_YELLOW then [2, 2, 2, 2, 2, 2, 2, 2]
      else [0, 0, 1, 2, 2, 2, 1, 0])"

definition ring_places :: "int \<Rightarrow> (nat \<times> nat) set" where
  "ring_places side_id_P =
     (case py_get SIDE_INDEX side_id_P of
        Inr (Table t) \<Rightarrow> set (zip (ring_layers side_id_P) (map nat t))
      | _ \<Rightarrow> {})"

text \<open>The object a call leaves, whether it returns or fails.\<close>

definition state_after :: "outcome \<Rightarrow> rubics_cube" where
  "state_after r = (case r of Inl (e, s) \<Rightarrow> s | Inr s \<Rightarrow> s)"

text \<open>Three layers of eight cells.\<close>

definition cube_wf :: "rubics_cube \<Rightarrow> bool" where
  "cube_wf s \<longleftrightarrow> length (cube s) = 3 \<and> list_all (\<lambda>lay. length lay = 8) (cube s)"

section \<open>The invariant of the rotation\<close>

text \<open>
  The faces a cell is bound to: the two face slots of an edge, the three of a corner.
  A cell has the shape of a reference cell when it has seven slots, the same kind and
  the same set of bound faces.  In every reachable cube each place holds a cell of the
  shape the solved cube has there.
\<close>

definition cell_faces :: "cell \<Rightarrow> int set" where
  "cell_faces c =
     (if c ! 0 = CUBE_EDGE then {c ! 3, c ! 4}
      else if c ! 0 = CUBE_CORNER then {c ! 4, c ! 5, c ! 6}
      else {})"

definition same_shape :: "cell \<Rightarrow> cell \<Rightarrow> bool" where
  "same_shape c0 c \<longleftrightarrow> length c = 7 \<and> c ! 0 = c0 ! 0 \<and> cell_faces c = cell_faces c0"

definition cube_inv :: "rubics_cube \<Rightarrow> bool" where
  "cube_inv s \<longleftrightarrow>
     list_all2 (list_all2 same_shape) [init_top, init_mid, init_bot] (cube s) \<and>
     cube_solved s = [init_top, init_mid, init_bot]"

definition edge_at :: "int \<Rightarrow> int \<Rightarrow> cell \<Rightarrow> bool" where
  "edge_at f l c \<longleftrightarrow> length c = 7 \<and> c ! 0 = CUBE_EDGE \<and> cell_faces c = {f, l}"

definition corner_at :: "int \<Rightarrow> int \<Rightarrow> int \<Rightarrow> cell \<Rightarrow> bool" where
  "corner_at f la lb c \<longleftrightarrow> length c = 7 \<and> c ! 0 = CUBE_CORNER \<and> cell_faces c = {f, la, lb}"

text \<open>
  The face a bound face turns to (itself where the source has no successor for it), the
  cell with every bound face turned, and a corner with the slot of one face marked by
  the delayed successor.
\<close>

definition turn :: "int \<Rightarrow> int \<Rightarrow> int \<Rightarrow> int" where
  "turn d f v = (case side_edge_face_get d f v of Inl e \<Rightarrow> v | Inr n \<Rightarrow> n)"

definition relabel :: "int \<Rightarrow> int \<Rightarrow> cell \<Rightarrow> cell" where
  "relabel d f c =
     (if c ! 0 = CUBE_EDGE then c[3 := turn d f (c ! 3), 4 := turn d f (c ! 4)]
      else if c ! 0 = CUBE_CORNER then c[4 := turn d f (c ! 4), 5 := turn d f (c ! 5), 6 := turn d f (c ! 6)]
      else c)"

definition mark :: "cell \<Rightarrow> int \<Rightarrow> int \<Rightarrow> cell" where
  "mark c old new =
     (if c ! 4 = old then c[4 := new + CUBE_DELAY]
      else if c ! 5 = old then c[5 := new + CUBE_DELAY]
      else if c ! 6 = old then c[6 := new + CUBE_DELAY]
      else c)"

definition ring_shift :: "int \<Rightarrow> 'a list \<Rightarrow> 'a list" where
  "ring_shift d xs = rotate (if d = ROTATE_CLOCKWISE then 6 else 2) xs"

definition ring_turn :: "int \<Rightarrow> int \<Rightarrow> side \<Rightarrow> side" where
  "ring_turn d f sd = ring_shift d (map (relabel d f) sd)"

text \<open>The ring of a face in the solved cube.\<close>

definition solved_ring :: "int \<Rightarrow> side" where
  "solved_ring f = (case side_get RubicsCube f of Inl e \<Rightarrow> [] | Inr sd \<Rightarrow> sd)"

definition ring_ok :: "int \<Rightarrow> side \<Rightarrow> bool" where
  "ring_ok f sd \<longleftrightarrow> list_all2 same_shape (solved_ring f) sd"

text \<open>
  The cube that \<open>RotateSide( CUBE_RED, ROTATE_CLOCKWISE )\<close> leaves when called on the
  newly constructed cube, cell by cell.
\<close>

definition red_turned :: rubics_cube where
  "red_turned =
     \<lparr> cube =
         [[[1, 3, 4, 3, 1, 9, 9], [2, 2, 4, 3, 4, 1, 3], CUBE_WG, CUBE_WGO,
           CUBE_WO, CUBE_WOB, CUBE_WB, [2, 1, 3, 4, 6, 3, 1]],
          [CUBE_RED_ID, [1, 2, 3, 4, 3, 9, 9], CUBE_GED, CUBE_GOM,
           CUBE_OED, CUBE_OBM, CUBE_BED, [1, 1, 3, 6, 3, 9, 9]],
          [[1, 6, 3, 2, 3, 9, 9], [2, 2, 3, 6, 4, 3, 2], CUBE_YG, CUBE_YOG,
           CUBE_YO, CUBE_YBO, CUBE_YB, [2, 1, 6, 3, 6, 2, 3]]],
       cube_solved = [init_top, init_mid, init_bot] \<rparr>"

section \<open>Subscripts and sequencing\<close>

lemma bnd_Inr [simp]: "bnd (Inr v) k = k v"
  by (simp add: bnd_def)

lemma bnd_Inl [simp]: "bnd (Inl e) k = Inl e"
  by (simp add: bnd_def)

lemma and_then_Inr [simp]: "and_then (Inr s) k = k s"
  by (simp add: and_then_def)

lemma and_then_Inl [simp]: "and_then (Inl x) k = Inl x"
  by (simp add: and_then_def)

lemma py_index_nat: "py_index n (int k) = (if k < n then Some k else None)"
  by (simp add: py_index_def)

lemma py_get_0 [simp]: "py_get xs 0 = (if 0 < length xs then Inr (xs ! 0) else Inl IndexError)"
  using py_index_nat [of "length xs" 0] by (simp add: py_get_def)

lemma py_get_1 [simp]: "py_get xs 1 = (if 1 < length xs then Inr (xs ! 1) else Inl IndexError)"
  using py_index_nat [of "length xs" 1] by (simp add: py_get_def)

lemma py_get_numeral [simp]:
  "py_get xs (numeral k) = (if numeral k < length xs then Inr (xs ! numeral k) else Inl IndexError)"
  using py_index_nat [of "length xs" "numeral k"] by (simp add: py_get_def)

lemma py_set_0 [simp]: "py_set xs 0 v = (if 0 < length xs then Inr (xs[0 := v]) else Inl IndexError)"
  using py_index_nat [of "length xs" 0] by (simp add: py_set_def)

lemma py_set_1 [simp]: "py_set xs 1 v = (if 1 < length xs then Inr (xs[1 := v]) else Inl IndexError)"
  using py_index_nat [of "length xs" 1] by (simp add: py_set_def)

lemma py_set_numeral [simp]:
  "py_set xs (numeral k) v = (if numeral k < length xs then Inr (xs[numeral k := v]) else Inl IndexError)"
  using py_index_nat [of "length xs" "numeral k"] by (simp add: py_set_def)

lemma length8_explicit: "length xs = 8 \<Longrightarrow> \<exists>a b c d e f g h. xs = [a, b, c, d, e, f, g, h]"
  by (simp add: eval_nat_numeral length_Suc_conv) blast

lemma length7_explicit: "length xs = 7 \<Longrightarrow> \<exists>a b c d e f g. xs = [a, b, c, d, e, f, g]"
  by (simp add: eval_nat_numeral length_Suc_conv) blast

lemma length3_explicit: "length xs = 3 \<Longrightarrow> \<exists>a b c. xs = [a, b, c]"
  by (simp add: eval_nat_numeral length_Suc_conv) blast

lemma below8: "p < (8::nat) \<Longrightarrow> p = 0 \<or> p = 1 \<or> p = 2 \<or> p = 3 \<or> p = 4 \<or> p = 5 \<or> p = 6 \<or> p = 7"
  by arith

section \<open>The two passes on an explicit ring\<close>

lemma side_deepcopy_explicit:
  "side_deepcopy [a, b, c, d, e, f, g, h] =
     Inr \<lparr> s1030 = h, s0000 = a, s0130 = b, s0300 = c, s0430 = d, s0600 = e, s0730 = f, s0900 = g \<rparr>"
  by (simp add: side_deepcopy_def)

lemma side_assign_explicit:
  "side_assign [a, b, c, d, e, f, g, h] x0 x3 x6 x9 x1 x4 x7 x10 = Inr [x0, x1, x3, x4, x6, x7, x9, x10]"
  by (simp add: side_assign_def)

lemma rotate_colors_explicit:
  "rotate_colors dir sid [a, b, c, d, e, f, g, h] =
     Inr (if dir = ROTATE_CLOCKWISE then [g, h, a, b, c, d, e, f] else [c, d, e, f, g, h, a, b])"
  by (simp add: rotate_colors_def side_deepcopy_explicit side_assign_explicit)

lemma rotate_colors_shift: "length sd = 8 \<Longrightarrow> rotate_colors d f sd = Inr (ring_shift d sd)"
  apply (drule length8_explicit)
  apply (clarsimp simp: rotate_colors_explicit ring_shift_def)
  apply (simp add: eval_nat_numeral)
  done

lemma cell_faces_explicit:
  "cell_faces [t, a, b, c, d, e, f] = (if t = 1 then {c, d} else if t = 2 then {d, e, f} else {})"
  by (simp add: cell_faces_def)

lemma mark_length [simp]: "length (mark c old new) = length c"
  by (simp add: mark_def)

lemma plus_delay_mark:
  "length c = 7 \<Longrightarrow> py_get e idx = Inr n \<Longrightarrow>
   rotate_face_edge_plus_cube_delay c old e idx = Inr (mark c old n)"
  by (simp add: rotate_face_edge_plus_cube_delay_def mark_def)

lemma turn_self: "f \<in> {1, 2, 3, 4, 5, 6} \<Longrightarrow> turn d f f = f"
  by (auto simp: turn_def side_edge_face_get_def side_edge_white_def side_edge_yellow_def
      side_edge_red_def side_edge_orange_def side_edge_green_def side_edge_blue_def)

lemma edge_at_explicit: "edge_at f l [t, a, b, x, y, u, v] \<longleftrightarrow> t = 1 \<and> {x, y} = {f, l}"
  by (cases "t = 1") (simp_all add: edge_at_def cell_faces_explicit)

lemma corner_at_explicit: "corner_at f la lb [t, a, b, c, x, y, z] \<longleftrightarrow> t = 2 \<and> {x, y, z} = {f, la, lb}"
  by (cases "t = 2") (simp_all add: corner_at_def cell_faces_explicit)

lemma triple_cases:
  fixes p :: int
  assumes eq: "{p, q, r} = {f, a, b}" and d: "f \<noteq> a" "f \<noteq> b" "a \<noteq> b"
  shows "(p = f \<and> q = a \<and> r = b) \<or> (p = f \<and> q = b \<and> r = a) \<or> (p = a \<and> q = f \<and> r = b) \<or>
         (p = a \<and> q = b \<and> r = f) \<or> (p = b \<and> q = f \<and> r = a) \<or> (p = b \<and> q = a \<and> r = f)"
proof -
  have "p \<in> {p, q, r}" "q \<in> {p, q, r}" "r \<in> {p, q, r}" by simp_all
  then have 1: "p = f \<or> p = a \<or> p = b" "q = f \<or> q = a \<or> q = b" "r = f \<or> r = a \<or> r = b"
    unfolding eq by simp_all
  have "f \<in> {f, a, b}" "a \<in> {f, a, b}" "b \<in> {f, a, b}" by simp_all
  then have 2: "f = p \<or> f = q \<or> f = r" "a = p \<or> a = q \<or> a = r" "b = p \<or> b = q \<or> b = r"
    unfolding eq [symmetric] by simp_all
  from 1(1) show ?thesis
  proof (elim disjE)
    assume "p = f" with 2(2,3) d show ?thesis by auto
  next
    assume "p = a" with 2(1,3) d show ?thesis by auto
  next
    assume "p = b" with 2(1,2) d show ?thesis by auto
  qed
qed

section \<open>The position pass\<close>

text \<open>
  Claim C6.  The position pass \<open>_rotate_colors\<close> turns the ring of eight cells as a
  circular buffer by two slots: clockwise, the cell at clock position \<open>p\<close> is afterwards
  at position \<open>p + 2\<close> modulo 8, unchanged; counter-clockwise, at position \<open>p - 2\<close>
  modulo 8.  This holds for all eight positions, edges and corners alike, and the pass
  does not fail on a ring of eight cells.
\<close>

theorem rotate_colors_two_slots:
  assumes "length side_P = 8"
  shows "\<exists>cw ccw.
           rotate_colors ROTATE_CLOCKWISE side_id_P side_P = Inr cw \<and>
           rotate_colors ROTATE_COUNTER side_id_P side_P = Inr ccw \<and>
           length cw = 8 \<and> length ccw = 8 \<and>
           (\<forall>p<8. cw ! ((p + 2) mod 8) = side_P ! p \<and>
                  ccw ! nat ((int p - 2) mod 8) = side_P ! p)"
proof -
  from assms obtain a b c d e f g h where s: "side_P = [a, b, c, d, e, f, g, h]"
    using length8_explicit by blast
  show ?thesis
    unfolding s rotate_colors_explicit
    by (auto dest!: below8)
qed

theorem rotate_colors_two_slots_witness:
  "length init_top = 8 \<and>
   (\<exists>cw ccw.
      rotate_colors ROTATE_CLOCKWISE CUBE_WHITE init_top = Inr cw \<and>
      rotate_colors ROTATE_COUNTER CUBE_WHITE init_top = Inr ccw \<and>
      cw ! 1 = CUBE_WBR \<and> ccw ! 5 = CUBE_WBR)"
proof -
  have len: "length init_top = 8"
    by (simp add: init_top_def)
  from rotate_colors_two_slots [OF len, of CUBE_WHITE]
  obtain cw ccw where r:
    "rotate_colors ROTATE_CLOCKWISE CUBE_WHITE init_top = Inr cw"
    "rotate_colors ROTATE_COUNTER CUBE_WHITE init_top = Inr ccw"
    and m: "\<forall>p<8. cw ! ((p + 2) mod 8) = init_top ! p \<and> ccw ! nat ((int p - 2) mod 8) = init_top ! p"
    by blast
  from m have "cw ! ((7 + 2) mod 8) = init_top ! 7 \<and> ccw ! nat ((int 7 - 2) mod 8) = init_top ! 7"
    by (rule allE [where x = 7]) simp
  then have "cw ! 1 = CUBE_WBR \<and> ccw ! 5 = CUBE_WBR"
    by (simp add: init_top_def)
  with len r show ?thesis by blast
qed

section \<open>The successor of a face\<close>

lemmas side_edge_defs =
  side_edge_face_get_def side_edge_white_def side_edge_yellow_def side_edge_red_def
  side_edge_orange_def side_edge_green_def side_edge_blue_def

text \<open>
  Claim C5.  The clockwise successor that \<open>_side_edge_face_get\<close> computes is a cycle of
  four colours about each of the six axes: about White it is Red, Green, Orange, Blue,
  Red; about Red it is White, Blue, Yellow, Green, White; about Yellow, Orange and Blue
  it is the cycle of White, Red and Green run backwards; about Green it is White, Red,
  Yellow, Orange, White.  About each axis the counter-clockwise successor is the inverse
  permutation of the clockwise one, on every colour of the cycle, and each of the two
  undoes the other wherever it returns.  On every colour outside the cycle of the axis
  the function exits, in both directions.
\<close>

theorem side_edge_face_get_four_cycles:
  "(side_edge_face_get ROTATE_CLOCKWISE CUBE_WHITE CUBE_RED = Inr CUBE_GREEN \<and>
    side_edge_face_get ROTATE_CLOCKWISE CUBE_WHITE CUBE_GREEN = Inr CUBE_ORANGE \<and>
    side_edge_face_get ROTATE_CLOCKWISE CUBE_WHITE CUBE_ORANGE = Inr CUBE_BLUE \<and>
    side_edge_face_get ROTATE_CLOCKWISE CUBE_WHITE CUBE_BLUE = Inr CUBE_RED) \<and>
   (side_edge_face_get ROTATE_CLOCKWISE CUBE_YELLOW CUBE_RED = Inr CUBE_BLUE \<and>
    side_edge_face_get ROTATE_CLOCKWISE CUBE_YELLOW CUBE_BLUE = Inr CUBE_ORANGE \<and>
    side_edge_face_get ROTATE_CLOCKWISE CUBE_YELLOW CUBE_ORANGE = Inr CUBE_GREEN \<and>
    side_edge_face_get ROTATE_CLOCKWISE CUBE_YELLOW CUBE_GREEN = Inr CUBE_RED) \<and>
   (side_edge_face_get ROTATE_CLOCKWISE CUBE_RED CUBE_WHITE = Inr CUBE_BLUE \<and>
    side_edge_face_get ROTATE_CLOCKWISE CUBE_RED CUBE_BLUE = Inr CUBE_YELLOW \<and>
    side_edge_face_get ROTATE_CLOCKWISE CUBE_RED CUBE_YELLOW = Inr CUBE_GREEN \<and>
    side_edge_face_get ROTATE_CLOCKWISE CUBE_RED CUBE_GREEN = Inr CUBE_WHITE) \<and>
   (side_edge_face_get ROTATE_CLOCKWISE CUBE_GREEN CUBE_WHITE = Inr CUBE_RED \<and>
    side_edge_face_get ROTATE_CLOCKWISE CUBE_GREEN CUBE_RED = Inr CUBE_YELLOW \<and>
    side_edge_face_get ROTATE_CLOCKWISE CUBE_GREEN CUBE_YELLOW = Inr CUBE_ORANGE \<and>
    side_edge_face_get ROTATE_CLOCKWISE CUBE_GREEN CUBE_ORANGE = Inr CUBE_WHITE) \<and>
   (side_edge_face_get ROTATE_CLOCKWISE CUBE_ORANGE CUBE_WHITE = Inr CUBE_GREEN \<and>
    side_edge_face_get ROTATE_CLOCKWISE CUBE_ORANGE CUBE_GREEN = Inr CUBE_YELLOW \<and>
    side_edge_face_get ROTATE_CLOCKWISE CUBE_ORANGE CUBE_YELLOW = Inr CUBE_BLUE \<and>
    side_edge_face_get ROTATE_CLOCKWISE CUBE_ORANGE CUBE_BLUE = Inr CUBE_WHITE) \<and>
   (side_edge_face_get ROTATE_CLOCKWISE CUBE_BLUE CUBE_WHITE = Inr CUBE_ORANGE \<and>
    side_edge_face_get ROTATE_CLOCKWISE CUBE_BLUE CUBE_ORANGE = Inr CUBE_YELLOW \<and>
    side_edge_face_get ROTATE_CLOCKWISE CUBE_BLUE CUBE_YELLOW = Inr CUBE_RED \<and>
    side_edge_face_get ROTATE_CLOCKWISE CUBE_BLUE CUBE_RED = Inr CUBE_WHITE) \<and>
   (side_edge_face_get ROTATE_COUNTER CUBE_WHITE CUBE_GREEN = Inr CUBE_RED \<and>
    side_edge_face_get ROTATE_COUNTER CUBE_WHITE CUBE_ORANGE = Inr CUBE_GREEN \<and>
    side_edge_face_get ROTATE_COUNTER CUBE_WHITE CUBE_BLUE = Inr CUBE_ORANGE \<and>
    side_edge_face_get ROTATE_COUNTER CUBE_WHITE CUBE_RED = Inr CUBE_BLUE) \<and>
   (side_edge_face_get ROTATE_COUNTER CUBE_YELLOW CUBE_BLUE = Inr CUBE_RED \<and>
    side_edge_face_get ROTATE_COUNTER CUBE_YELLOW CUBE_ORANGE = Inr CUBE_BLUE \<and>
    side_edge_face_get ROTATE_COUNTER CUBE_YELLOW CUBE_GREEN = Inr CUBE_ORANGE \<and>
    side_edge_face_get ROTATE_COUNTER CUBE_YELLOW CUBE_RED = Inr CUBE_GREEN) \<and>
   (side_edge_face_get ROTATE_COUNTER CUBE_RED CUBE_BLUE = Inr CUBE_WHITE \<and>
    side_edge_face_get ROTATE_COUNTER CUBE_RED CUBE_YELLOW = Inr CUBE_BLUE \<and>
    side_edge_face_get ROTATE_COUNTER CUBE_RED CUBE_GREEN = Inr CUBE_YELLOW \<and>
    side_edge_face_get ROTATE_COUNTER CUBE_RED CUBE_WHITE = Inr CUBE_GREEN) \<and>
   (side_edge_face_get ROTATE_COUNTER CUBE_GREEN CUBE_RED = Inr CUBE_WHITE \<and>
    side_edge_face_get ROTATE_COUNTER CUBE_GREEN CUBE_YELLOW = Inr CUBE_RED \<and>
    side_edge_face_get ROTATE_COUNTER CUBE_GREEN CUBE_ORANGE = Inr CUBE_YELLOW \<and>
    side_edge_face_get ROTATE_COUNTER CUBE_GREEN CUBE_WHITE = Inr CUBE_ORANGE) \<and>
   (side_edge_face_get ROTATE_COUNTER CUBE_ORANGE CUBE_GREEN = Inr CUBE_WHITE \<and>
    side_edge_face_get ROTATE_COUNTER CUBE_ORANGE CUBE_YELLOW = Inr CUBE_GREEN \<and>
    side_edge_face_get ROTATE_COUNTER CUBE_ORANGE CUBE_BLUE = Inr CUBE_YELLOW \<and>
    side_edge_face_get ROTATE_COUNTER CUBE_ORANGE CUBE_WHITE = Inr CUBE_BLUE) \<and>
   (side_edge_face_get ROTATE_COUNTER CUBE_BLUE CUBE_ORANGE = Inr CUBE_WHITE \<and>
    side_edge_face_get ROTATE_COUNTER CUBE_BLUE CUBE_YELLOW = Inr CUBE_ORANGE \<and>
    side_edge_face_get ROTATE_COUNTER CUBE_BLUE CUBE_RED = Inr CUBE_YELLOW \<and>
    side_edge_face_get ROTATE_COUNTER CUBE_BLUE CUBE_WHITE = Inr CUBE_RED) \<and>
   (\<forall>axis c n. side_edge_face_get ROTATE_CLOCKWISE axis c = Inr n \<longrightarrow>
      side_edge_face_get ROTATE_COUNTER axis n = Inr c) \<and>
   (\<forall>axis c n. side_edge_face_get ROTATE_COUNTER axis c = Inr n \<longrightarrow>
      side_edge_face_get ROTATE_CLOCKWISE axis n = Inr c) \<and>
   (\<forall>d c. c \<notin> {CUBE_RED, CUBE_GREEN, CUBE_ORANGE, CUBE_BLUE} \<longrightarrow>
      side_edge_face_get d CUBE_WHITE c = Inl SystemExit \<and>
      side_edge_face_get d CUBE_YELLOW c = Inl SystemExit) \<and>
   (\<forall>d c. c \<notin> {CUBE_WHITE, CUBE_YELLOW, CUBE_GREEN, CUBE_BLUE} \<longrightarrow>
      side_edge_face_get d CUBE_RED c = Inl SystemExit \<and>
      side_edge_face_get d CUBE_ORANGE c = Inl SystemExit) \<and>
   (\<forall>d c. c \<notin> {CUBE_WHITE, CUBE_YELLOW, CUBE_RED, CUBE_ORANGE} \<longrightarrow>
      side_edge_face_get d CUBE_GREEN c = Inl SystemExit \<and>
      side_edge_face_get d CUBE_BLUE c = Inl SystemExit)"
  by (simp add: side_edge_defs split: if_splits)

theorem side_edge_face_get_four_cycles_witness:
  "side_edge_face_get ROTATE_CLOCKWISE CUBE_BLUE CUBE_YELLOW = Inr CUBE_RED \<and>
   side_edge_face_get ROTATE_COUNTER CUBE_BLUE CUBE_RED = Inr CUBE_YELLOW \<and>
   CUBE_BLUE \<notin> {CUBE_WHITE, CUBE_YELLOW, CUBE_RED, CUBE_ORANGE} \<and>
   side_edge_face_get ROTATE_CLOCKWISE CUBE_BLUE CUBE_BLUE = Inl SystemExit"
proof -
  have a: "side_edge_face_get ROTATE_CLOCKWISE CUBE_BLUE CUBE_YELLOW = Inr CUBE_RED"
    by (simp add: side_edge_defs)
  have b: "CUBE_BLUE \<notin> {CUBE_WHITE, CUBE_YELLOW, CUBE_RED, CUBE_ORANGE}"
    by simp
  from side_edge_face_get_four_cycles a b show ?thesis by blast
qed

lemma minus_delay_explicit:
  "face_minus_cube_delay [k, a, b, x, p, q, r] =
     Inr [k, a, b, x, if 6 < p then p - 100 else p, if 6 < q then q - 100 else q,
          if 6 < r then r - 100 else r]"
  by (simp add: face_minus_cube_delay_def face_minus_cube_delay_face_def)

lemma mark_explicit:
  "mark [k, a, b, x, p, q, r] old new =
     (if p = old then [k, a, b, x, new + 100, q, r]
      else if q = old then [k, a, b, x, p, new + 100, r]
      else if r = old then [k, a, b, x, p, q, new + 100]
      else [k, a, b, x, p, q, r])"
  by (simp add: mark_def)

lemma relabel_corner_explicit:
  "relabel d f [2, a, b, x, p, q, r] = [2, a, b, x, turn d f p, turn d f q, turn d f r]"
  by (simp add: relabel_def)

lemma relabel_edge_explicit:
  "relabel d f [1, a, b, x, p, q, r] = [1, a, b, turn d f x, turn d f p, q, r]"
  by (simp add: relabel_def)

lemma edge_explicit:
  assumes "edge_at f l e"
  obtains a b x y u v where "e = [1, a, b, x, y, u, v]" and "{x, y} = {f, l}"
proof -
  from assms have "length e = 7" by (simp add: edge_at_def)
  then obtain k a b x y u v where ex: "e = [k, a, b, x, y, u, v]"
    using length7_explicit by blast
  from assms have "k = 1 \<and> {x, y} = {f, l}"
    unfolding ex edge_at_explicit .
  with ex that show thesis by simp
qed

lemma corner_explicit:
  assumes "corner_at f la lb c"
  obtains a b x p q r where "c = [2, a, b, x, p, q, r]" and "{p, q, r} = {f, la, lb}"
proof -
  from assms have "length c = 7" by (simp add: corner_at_def)
  then obtain k a b x p q r where ex: "c = [k, a, b, x, p, q, r]"
    using length7_explicit by blast
  from assms have "k = 2 \<and> {p, q, r} = {f, la, lb}"
    unfolding ex corner_at_explicit .
  with ex that show thesis by simp
qed

lemma rotate_face_edge_relabel:
  assumes e: "edge_at f l e" and fl: "f \<noteq> l"
    and n: "side_edge_face_get d f l = Inr (turn d f l)"
    and tf: "turn d f f = f"
    and cl: "length cl = 7" and cr: "length cr = 7"
  shows "rotate_face_edge f d cl e cr =
           Inr (mark cl l (turn d f l), relabel d f e, mark cr l (turn d f l))"
proof -
  from e obtain a b x y u v where ex: "e = [1, a, b, x, y, u, v]" and xy: "{x, y} = {f, l}"
    by (rule edge_explicit)
  from xy have "x = f \<and> y = l \<or> x = l \<and> y = f"
    by (simp add: doubleton_eq_iff)
  then show ?thesis
  proof (elim disjE conjE)
    assume "x = f" "y = l"
    then have "e = [1, a, b, f, l, u, v]" by (simp add: ex)
    then show ?thesis
      by (simp add: rotate_face_edge_def relabel_edge_explicit plus_delay_mark n tf cl cr fl)
  next
    assume "x = l" "y = f"
    then have "e = [1, a, b, l, f, u, v]" by (simp add: ex)
    then show ?thesis
      by (simp add: rotate_face_edge_def relabel_edge_explicit plus_delay_mark n tf cl cr fl
          fl [symmetric])
  qed
qed

lemma corner_marks:
  assumes c: "corner_at f la lb c"
    and d: "f \<noteq> la" "f \<noteq> lb" "la \<noteq> lb"
    and r: "f \<le> 6" "la \<le> 6" "lb \<le> 6" "0 \<le> turn d f la" "0 \<le> turn d f lb"
    and t: "turn d f f = f"
  shows "face_minus_cube_delay (mark (mark c la (turn d f la)) lb (turn d f lb)) = Inr (relabel d f c)"
proof -
  from c obtain a b x p q r where ex: "c = [2, a, b, x, p, q, r]" and pqr: "{p, q, r} = {f, la, lb}"
    by (rule corner_explicit)
  from r have aux: "turn d f la + 100 \<noteq> lb" "turn d f lb + 100 \<noteq> la"
      "lb \<noteq> turn d f la + 100" "la \<noteq> turn d f lb + 100"
      "6 < turn d f la + 100" "6 < turn d f lb + 100" "\<not> 6 < f"
    by arith+
  note rules = mark_explicit relabel_corner_explicit minus_delay_explicit d aux t d [symmetric]
  from triple_cases [OF pqr d] show ?thesis
  proof (elim disjE conjE)
    assume "p = f" "q = la" "r = lb"
    then have "c = [2, a, b, x, f, la, lb]" by (simp add: ex)
    then show ?thesis by (simp add: rules)
  next
    assume "p = f" "q = lb" "r = la"
    then have "c = [2, a, b, x, f, lb, la]" by (simp add: ex)
    then show ?thesis by (simp add: rules)
  next
    assume "p = la" "q = f" "r = lb"
    then have "c = [2, a, b, x, la, f, lb]" by (simp add: ex)
    then show ?thesis by (simp add: rules)
  next
    assume "p = la" "q = lb" "r = f"
    then have "c = [2, a, b, x, la, lb, f]" by (simp add: ex)
    then show ?thesis by (simp add: rules)
  next
    assume "p = lb" "q = f" "r = la"
    then have "c = [2, a, b, x, lb, f, la]" by (simp add: ex)
    then show ?thesis by (simp add: rules)
  next
    assume "p = lb" "q = la" "r = f"
    then have "c = [2, a, b, x, lb, la, f]" by (simp add: ex)
    then show ?thesis by (simp add: rules)
  qed
qed

lemma corner_at_swap: "corner_at f la lb c \<Longrightarrow> corner_at f lb la c"
  by (simp add: corner_at_def insert_commute)

lemma rotate_faces_relabel:
  assumes E: "edge_at f l0 e0" "edge_at f l1 e2" "edge_at f l2 e4" "edge_at f l3 e6"
    and C: "corner_at f l0 l1 c1" "corner_at f l1 l2 c3" "corner_at f l2 l3 c5" "corner_at f l3 l0 c7"
    and N: "side_edge_face_get d f l0 = Inr (turn d f l0)" "side_edge_face_get d f l1 = Inr (turn d f l1)"
           "side_edge_face_get d f l2 = Inr (turn d f l2)" "side_edge_face_get d f l3 = Inr (turn d f l3)"
    and P: "0 \<le> turn d f l0" "0 \<le> turn d f l1" "0 \<le> turn d f l2" "0 \<le> turn d f l3"
    and D: "f \<noteq> l0" "f \<noteq> l1" "f \<noteq> l2" "f \<noteq> l3" "l0 \<noteq> l1" "l1 \<noteq> l2" "l2 \<noteq> l3" "l3 \<noteq> l0"
    and R: "f \<le> 6" "l0 \<le> 6" "l1 \<le> 6" "l2 \<le> 6" "l3 \<le> 6"
    and tf: "turn d f f = f"
  shows "rotate_faces d f [e0, c1, e2, c3, e4, c5, e6, c7] =
           Inr (map (relabel d f) [e0, c1, e2, c3, e4, c5, e6, c7])"
proof -
  from C have len: "length c1 = 7" "length c3 = 7" "length c5 = 7" "length c7 = 7"
    by (simp_all add: corner_at_def)
  have s1: "rotate_face_edge f d c7 e0 c1 =
      Inr (mark c7 l0 (turn d f l0), relabel d f e0, mark c1 l0 (turn d f l0))"
    by (rule rotate_face_edge_relabel [OF E(1) D(1) N(1) tf len(4) len(1)])
  have s2: "rotate_face_edge f d (mark c1 l0 (turn d f l0)) e2 c3 =
      Inr (mark (mark c1 l0 (turn d f l0)) l1 (turn d f l1), relabel d f e2, mark c3 l1 (turn d f l1))"
    by (rule rotate_face_edge_relabel [OF E(2) D(2) N(2) tf]) (simp_all add: len)
  have s3: "rotate_face_edge f d (mark c3 l1 (turn d f l1)) e4 c5 =
      Inr (mark (mark c3 l1 (turn d f l1)) l2 (turn d f l2), relabel d f e4, mark c5 l2 (turn d f l2))"
    by (rule rotate_face_edge_relabel [OF E(3) D(3) N(3) tf]) (simp_all add: len)
  have s4: "rotate_face_edge f d (mark c5 l2 (turn d f l2)) e6 (mark c7 l0 (turn d f l0)) =
      Inr (mark (mark c5 l2 (turn d f l2)) l3 (turn d f l3), relabel d f e6,
           mark (mark c7 l0 (turn d f l0)) l3 (turn d f l3))"
    by (rule rotate_face_edge_relabel [OF E(4) D(4) N(4) tf]) (simp_all add: len)
  have m7: "face_minus_cube_delay (mark (mark c7 l0 (turn d f l0)) l3 (turn d f l3)) = Inr (relabel d f c7)"
    by (rule corner_marks [OF corner_at_swap [OF C(4)] D(1) D(4) D(8) [symmetric] R(1) R(2) R(5) P(1) P(4) tf])
  have m1: "face_minus_cube_delay (mark (mark c1 l0 (turn d f l0)) l1 (turn d f l1)) = Inr (relabel d f c1)"
    by (rule corner_marks [OF C(1) D(1) D(2) D(5) R(1) R(2) R(3) P(1) P(2) tf])
  have m3: "face_minus_cube_delay (mark (mark c3 l1 (turn d f l1)) l2 (turn d f l2)) = Inr (relabel d f c3)"
    by (rule corner_marks [OF C(2) D(2) D(3) D(6) R(1) R(3) R(4) P(2) P(3) tf])
  have m5: "face_minus_cube_delay (mark (mark c5 l2 (turn d f l2)) l3 (turn d f l3)) = Inr (relabel d f c5)"
    by (rule corner_marks [OF C(3) D(3) D(4) D(7) R(1) R(4) R(5) P(3) P(4) tf])
  show ?thesis
    by (simp add: rotate_faces_def side_deepcopy_explicit s1 s2 s3 s4 m1 m3 m5 m7 side_assign_explicit)
qed

lemmas side_tables =
  side_index_def SIDE_INDEX_def SIDE_WHITE_def SIDE_YELLOW_def SIDE_RED_def SIDE_GREEN_def
  SIDE_ORANGE_def SIDE_BLUE_def

lemma side_get_explicit:
  assumes "cube s = [[t0, t1, t2, t3, t4, t5, t6, t7],
                 [m0, m1, m2, m3, m4, m5, m6, m7],
                 [b0, b1, b2, b3, b4, b5, b6, b7]]"
  shows "side_get s 1 = Inr [t0, t1, t2, t3, t4, t5, t6, t7]"
    and "side_get s 2 = Inr [b0, b7, b6, b5, b4, b3, b2, b1]"
    and "side_get s 3 = Inr [t0, t7, m7, b7, b0, b1, m1, t1]"
    and "side_get s 4 = Inr [t2, t1, m1, b1, b2, b3, m3, t3]"
    and "side_get s 5 = Inr [t4, t3, m3, b3, b4, b5, m5, t5]"
    and "side_get s 6 = Inr [t6, t5, m5, b5, b6, b7, m7, t7]"
  by (simp_all add: assms side_get_def side_get_slot_def side_tables CUBE_NIL_def)

lemma side_put_explicit:
  assumes "cube s = [[t0, t1, t2, t3, t4, t5, t6, t7],
                 [m0, m1, m2, m3, m4, m5, m6, m7],
                 [b0, b1, b2, b3, b4, b5, b6, b7]]"
  shows "side_put s 1 [x0, x1, x2, x3, x4, x5, x6, x7] =
       Inr (s\<lparr>cube := [[x0, x1, x2, x3, x4, x5, x6, x7],
                      [m0, m1, m2, m3, m4, m5, m6, m7],
                      [b0, b1, b2, b3, b4, b5, b6, b7]]\<rparr>)"
    and "side_put s 2 [x0, x1, x2, x3, x4, x5, x6, x7] =
       Inr (s\<lparr>cube := [[t0, t1, t2, t3, t4, t5, t6, t7],
                      [m0, m1, m2, m3, m4, m5, m6, m7],
                      [x0, x7, x6, x5, x4, x3, x2, x1]]\<rparr>)"
    and "side_put s 3 [x0, x1, x2, x3, x4, x5, x6, x7] =
       Inr (s\<lparr>cube := [[x0, x7, t2, t3, t4, t5, t6, x1],
                      [m0, x6, m2, m3, m4, m5, m6, x2],
                      [x4, x5, b2, b3, b4, b5, b6, x3]]\<rparr>)"
    and "side_put s 4 [x0, x1, x2, x3, x4, x5, x6, x7] =
       Inr (s\<lparr>cube := [[t0, x1, x0, x7, t4, t5, t6, t7],
                      [m0, x2, m2, x6, m4, m5, m6, m7],
                      [b0, x3, x4, x5, b4, b5, b6, b7]]\<rparr>)"
    and "side_put s 5 [x0, x1, x2, x3, x4, x5, x6, x7] =
       Inr (s\<lparr>cube := [[t0, t1, t2, x1, x0, x7, t6, t7],
                      [m0, m1, m2, x2, m4, x6, m6, m7],
                      [b0, b1, b2, x3, x4, x5, b6, b7]]\<rparr>)"
    and "side_put s 6 [x0, x1, x2, x3, x4, x5, x6, x7] =
       Inr (s\<lparr>cube := [[t0, t1, t2, t3, t4, x1, x0, x7],
                      [m0, m1, m2, m3, m4, x2, m6, x6],
                      [b0, b1, b2, b3, b4, x3, x4, x5]]\<rparr>)"
  by (simp_all add: assms side_put_def side_put_slot_def side_tables)

lemma cube_wf_explicit:
  assumes "cube_wf s"
  obtains t0 t1 t2 t3 t4 t5 t6 t7 m0 m1 m2 m3 m4 m5 m6 m7 b0 b1 b2 b3 b4 b5 b6 b7
  where "cube s = [[t0, t1, t2, t3, t4, t5, t6, t7],
                   [m0, m1, m2, m3, m4, m5, m6, m7],
                   [b0, b1, b2, b3, b4, b5, b6, b7]]"
proof -
  from assms have "length (cube s) = 3" by (simp add: cube_wf_def)
  then obtain t m b where c: "cube s = [t, m, b]"
    using length3_explicit by blast
  from assms have "length t = 8" "length m = 8" "length b = 8"
    by (simp_all add: cube_wf_def c)
  then obtain t0 t1 t2 t3 t4 t5 t6 t7 m0 m1 m2 m3 m4 m5 m6 m7 b0 b1 b2 b3 b4 b5 b6 b7
    where "t = [t0, t1, t2, t3, t4, t5, t6, t7]" "m = [m0, m1, m2, m3, m4, m5, m6, m7]"
      "b = [b0, b1, b2, b3, b4, b5, b6, b7]"
    using length8_explicit [of t] length8_explicit [of m] length8_explicit [of b] by metis
  with c that show thesis by simp
qed

lemma valid_side_cases:
  assumes "f \<in> {CUBE_WHITE, CUBE_YELLOW, CUBE_RED, CUBE_GREEN, CUBE_ORANGE, CUBE_BLUE}"
  obtains "f = 1" | "f = 2" | "f = 3" | "f = 4" | "f = 5" | "f = 6"
  using assms by auto

lemma cube_update_same: "cube s = c \<Longrightarrow> s\<lparr>cube := c\<rparr> = s"
  by auto

lemma side_get_writes_back:
  assumes wf: "cube_wf s"
    and f: "f \<in> {CUBE_WHITE, CUBE_YELLOW, CUBE_RED, CUBE_GREEN, CUBE_ORANGE, CUBE_BLUE}"
  shows "\<exists>sd. side_get s f = Inr sd \<and> side_put s f sd = Inr s"
proof -
  from wf obtain t0 t1 t2 t3 t4 t5 t6 t7 m0 m1 m2 m3 m4 m5 m6 m7 b0 b1 b2 b3 b4 b5 b6 b7
    where c: "cube s = [[t0, t1, t2, t3, t4, t5, t6, t7],
                        [m0, m1, m2, m3, m4, m5, m6, m7],
                        [b0, b1, b2, b3, b4, b5, b6, b7]]"
    by (rule cube_wf_explicit)
  from f show ?thesis
    by (cases rule: valid_side_cases)
       (simp_all add: side_get_explicit [OF c] side_put_explicit [OF c] cube_update_same [OF c])
qed

text \<open>
  Claim C1.  For each of the six colours \<open>f\<close>, writing back the ring just read,
  \<open>_side_put(f, _side_get(f))\<close>, succeeds and leaves the object unchanged: every cell of
  the three layers and the solved copy.  The cube has three layers of eight cells.
\<close>

theorem side_put_side_get:
  assumes wf: "cube_wf s"
    and f: "side_id_P \<in> {CUBE_WHITE, CUBE_YELLOW, CUBE_RED, CUBE_GREEN, CUBE_ORANGE, CUBE_BLUE}"
  shows "\<exists>sd. side_get s side_id_P = Inr sd \<and> side_put s side_id_P sd = Inr s"
proof -
  from wf obtain t0 t1 t2 t3 t4 t5 t6 t7 m0 m1 m2 m3 m4 m5 m6 m7 b0 b1 b2 b3 b4 b5 b6 b7
    where c: "cube s = [[t0, t1, t2, t3, t4, t5, t6, t7],
                        [m0, m1, m2, m3, m4, m5, m6, m7],
                        [b0, b1, b2, b3, b4, b5, b6, b7]]"
    by (rule cube_wf_explicit)
  from f show ?thesis
    by (cases rule: valid_side_cases)
       (simp_all add: side_get_explicit [OF c] side_put_explicit [OF c] cube_update_same [OF c])
qed

lemma RubicsCube_wf: "cube_wf RubicsCube"
  by (simp add: cube_wf_def RubicsCube_def init_top_def init_mid_def init_bot_def)

theorem side_put_side_get_witness:
  "cube_wf RubicsCube \<and>
   (\<exists>sd. side_get RubicsCube CUBE_RED = Inr sd \<and> side_put RubicsCube CUBE_RED sd = Inr RubicsCube)"
proof -
  have f: "CUBE_RED \<in> {CUBE_WHITE, CUBE_YELLOW, CUBE_RED, CUBE_GREEN, CUBE_ORANGE, CUBE_BLUE}"
    by simp
  from side_put_side_get [OF RubicsCube_wf f] RubicsCube_wf show ?thesis
    by simp
qed

lemmas cell_defs =
  CUBE_WR_def CUBE_WG_def CUBE_WO_def CUBE_WB_def CUBE_WRG_def CUBE_WGO_def
  CUBE_WOB_def CUBE_WBR_def CUBE_RGM_def CUBE_GOM_def CUBE_OBM_def CUBE_BRM_def
  CUBE_YR_def CUBE_YG_def CUBE_YO_def CUBE_YB_def CUBE_YGR_def CUBE_YOG_def
  CUBE_YBO_def CUBE_YRB_def CUBE_RED_ID_def CUBE_GED_def CUBE_OED_def CUBE_BED_def

lemma RubicsCube_explicit:
  "cube RubicsCube =
     [[CUBE_WR, CUBE_WRG, CUBE_WG, CUBE_WGO, CUBE_WO, CUBE_WOB, CUBE_WB, CUBE_WBR],
      [CUBE_RED_ID, CUBE_RGM, CUBE_GED, CUBE_GOM, CUBE_OED, CUBE_OBM, CUBE_BED, CUBE_BRM],
      [CUBE_YR, CUBE_YGR, CUBE_YG, CUBE_YOG, CUBE_YO, CUBE_YBO, CUBE_YB, CUBE_YRB]]"
  by (simp add: RubicsCube_def init_top_def init_mid_def init_bot_def)

lemma solved_ring_explicit:
  "solved_ring 1 = [CUBE_WR, CUBE_WRG, CUBE_WG, CUBE_WGO, CUBE_WO, CUBE_WOB, CUBE_WB, CUBE_WBR]"
  "solved_ring 2 = [CUBE_YR, CUBE_YRB, CUBE_YB, CUBE_YBO, CUBE_YO, CUBE_YOG, CUBE_YG, CUBE_YGR]"
  "solved_ring 3 = [CUBE_WR, CUBE_WBR, CUBE_BRM, CUBE_YRB, CUBE_YR, CUBE_YGR, CUBE_RGM, CUBE_WRG]"
  "solved_ring 4 = [CUBE_WG, CUBE_WRG, CUBE_RGM, CUBE_YGR, CUBE_YG, CUBE_YOG, CUBE_GOM, CUBE_WGO]"
  "solved_ring 5 = [CUBE_WO, CUBE_WGO, CUBE_GOM, CUBE_YOG, CUBE_YO, CUBE_YBO, CUBE_OBM, CUBE_WOB]"
  "solved_ring 6 = [CUBE_WB, CUBE_WOB, CUBE_OBM, CUBE_YBO, CUBE_YB, CUBE_YRB, CUBE_BRM, CUBE_WBR]"
  by (simp_all add: solved_ring_def side_get_explicit [OF RubicsCube_explicit])

lemma ring_ok_explicit:
  assumes "list_all2 same_shape [x0, x1, x2, x3, x4, x5, x6, x7] sd"
  obtains e0 c1 e2 c3 e4 c5 e6 c7 where "sd = [e0, c1, e2, c3, e4, c5, e6, c7]"
    and "same_shape x0 e0" "same_shape x1 c1" "same_shape x2 e2" "same_shape x3 c3"
        "same_shape x4 e4" "same_shape x5 c5" "same_shape x6 e6" "same_shape x7 c7"
proof -
  from assms have "length sd = 8"
    by (auto dest: list_all2_lengthD)
  then obtain e0 c1 e2 c3 e4 c5 e6 c7 where sd: "sd = [e0, c1, e2, c3, e4, c5, e6, c7]"
    using length8_explicit by blast
  from assms that [OF sd] show thesis
    by (simp add: sd)
qed

lemma rotate_faces_ring_1:
  assumes "ring_ok 1 sd"
  shows "rotate_faces d 1 sd = Inr (map (relabel d 1) sd)"
proof -
  from assms obtain e0 c1 e2 c3 e4 c5 e6 c7 where sd: "sd = [e0, c1, e2, c3, e4, c5, e6, c7]"
    and S: "same_shape CUBE_WR e0" "same_shape CUBE_WRG c1" "same_shape CUBE_WG e2" "same_shape CUBE_WGO c3"
        "same_shape CUBE_WO e4" "same_shape CUBE_WOB c5" "same_shape CUBE_WB e6" "same_shape CUBE_WBR c7"
    unfolding ring_ok_def solved_ring_explicit by (rule ring_ok_explicit)
  from S have E: "edge_at 1 3 e0" "edge_at 1 4 e2" "edge_at 1 5 e4" "edge_at 1 6 e6"
    and C: "corner_at 1 3 4 c1" "corner_at 1 4 5 c3" "corner_at 1 5 6 c5" "corner_at 1 6 3 c7"
    by (simp_all add: same_shape_def edge_at_def corner_at_def cell_faces_explicit cell_defs insert_commute)
  show ?thesis
    unfolding sd
    by (rule rotate_faces_relabel [OF E C]) (simp_all add: turn_def side_edge_defs)
qed

lemma rotate_faces_ring_2:
  assumes "ring_ok 2 sd"
  shows "rotate_faces d 2 sd = Inr (map (relabel d 2) sd)"
proof -
  from assms obtain e0 c1 e2 c3 e4 c5 e6 c7 where sd: "sd = [e0, c1, e2, c3, e4, c5, e6, c7]"
    and S: "same_shape CUBE_YR e0" "same_shape CUBE_YRB c1" "same_shape CUBE_YB e2" "same_shape CUBE_YBO c3"
        "same_shape CUBE_YO e4" "same_shape CUBE_YOG c5" "same_shape CUBE_YG e6" "same_shape CUBE_YGR c7"
    unfolding ring_ok_def solved_ring_explicit by (rule ring_ok_explicit)
  from S have E: "edge_at 2 3 e0" "edge_at 2 6 e2" "edge_at 2 5 e4" "edge_at 2 4 e6"
    and C: "corner_at 2 3 6 c1" "corner_at 2 6 5 c3" "corner_at 2 5 4 c5" "corner_at 2 4 3 c7"
    by (simp_all add: same_shape_def edge_at_def corner_at_def cell_faces_explicit cell_defs insert_commute)
  show ?thesis
    unfolding sd
    by (rule rotate_faces_relabel [OF E C]) (simp_all add: turn_def side_edge_defs)
qed

lemma rotate_faces_ring_3:
  assumes "ring_ok 3 sd"
  shows "rotate_faces d 3 sd = Inr (map (relabel d 3) sd)"
proof -
  from assms obtain e0 c1 e2 c3 e4 c5 e6 c7 where sd: "sd = [e0, c1, e2, c3, e4, c5, e6, c7]"
    and S: "same_shape CUBE_WR e0" "same_shape CUBE_WBR c1" "same_shape CUBE_BRM e2" "same_shape CUBE_YRB c3"
        "same_shape CUBE_YR e4" "same_shape CUBE_YGR c5" "same_shape CUBE_RGM e6" "same_shape CUBE_WRG c7"
    unfolding ring_ok_def solved_ring_explicit by (rule ring_ok_explicit)
  from S have E: "edge_at 3 1 e0" "edge_at 3 6 e2" "edge_at 3 2 e4" "edge_at 3 4 e6"
    and C: "corner_at 3 1 6 c1" "corner_at 3 6 2 c3" "corner_at 3 2 4 c5" "corner_at 3 4 1 c7"
    by (simp_all add: same_shape_def edge_at_def corner_at_def cell_faces_explicit cell_defs insert_commute)
  show ?thesis
    unfolding sd
    by (rule rotate_faces_relabel [OF E C]) (simp_all add: turn_def side_edge_defs)
qed

lemma rotate_faces_ring_4:
  assumes "ring_ok 4 sd"
  shows "rotate_faces d 4 sd = Inr (map (relabel d 4) sd)"
proof -
  from assms obtain e0 c1 e2 c3 e4 c5 e6 c7 where sd: "sd = [e0, c1, e2, c3, e4, c5, e6, c7]"
    and S: "same_shape CUBE_WG e0" "same_shape CUBE_WRG c1" "same_shape CUBE_RGM e2" "same_shape CUBE_YGR c3"
        "same_shape CUBE_YG e4" "same_shape CUBE_YOG c5" "same_shape CUBE_GOM e6" "same_shape CUBE_WGO c7"
    unfolding ring_ok_def solved_ring_explicit by (rule ring_ok_explicit)
  from S have E: "edge_at 4 1 e0" "edge_at 4 3 e2" "edge_at 4 2 e4" "edge_at 4 5 e6"
    and C: "corner_at 4 1 3 c1" "corner_at 4 3 2 c3" "corner_at 4 2 5 c5" "corner_at 4 5 1 c7"
    by (simp_all add: same_shape_def edge_at_def corner_at_def cell_faces_explicit cell_defs insert_commute)
  show ?thesis
    unfolding sd
    by (rule rotate_faces_relabel [OF E C]) (simp_all add: turn_def side_edge_defs)
qed

lemma rotate_faces_ring_5:
  assumes "ring_ok 5 sd"
  shows "rotate_faces d 5 sd = Inr (map (relabel d 5) sd)"
proof -
  from assms obtain e0 c1 e2 c3 e4 c5 e6 c7 where sd: "sd = [e0, c1, e2, c3, e4, c5, e6, c7]"
    and S: "same_shape CUBE_WO e0" "same_shape CUBE_WGO c1" "same_shape CUBE_GOM e2" "same_shape CUBE_YOG c3"
        "same_shape CUBE_YO e4" "same_shape CUBE_YBO c5" "same_shape CUBE_OBM e6" "same_shape CUBE_WOB c7"
    unfolding ring_ok_def solved_ring_explicit by (rule ring_ok_explicit)
  from S have E: "edge_at 5 1 e0" "edge_at 5 4 e2" "edge_at 5 2 e4" "edge_at 5 6 e6"
    and C: "corner_at 5 1 4 c1" "corner_at 5 4 2 c3" "corner_at 5 2 6 c5" "corner_at 5 6 1 c7"
    by (simp_all add: same_shape_def edge_at_def corner_at_def cell_faces_explicit cell_defs insert_commute)
  show ?thesis
    unfolding sd
    by (rule rotate_faces_relabel [OF E C]) (simp_all add: turn_def side_edge_defs)
qed

lemma rotate_faces_ring_6:
  assumes "ring_ok 6 sd"
  shows "rotate_faces d 6 sd = Inr (map (relabel d 6) sd)"
proof -
  from assms obtain e0 c1 e2 c3 e4 c5 e6 c7 where sd: "sd = [e0, c1, e2, c3, e4, c5, e6, c7]"
    and S: "same_shape CUBE_WB e0" "same_shape CUBE_WOB c1" "same_shape CUBE_OBM e2" "same_shape CUBE_YBO c3"
        "same_shape CUBE_YB e4" "same_shape CUBE_YRB c5" "same_shape CUBE_BRM e6" "same_shape CUBE_WBR c7"
    unfolding ring_ok_def solved_ring_explicit by (rule ring_ok_explicit)
  from S have E: "edge_at 6 1 e0" "edge_at 6 5 e2" "edge_at 6 2 e4" "edge_at 6 3 e6"
    and C: "corner_at 6 1 5 c1" "corner_at 6 5 2 c3" "corner_at 6 2 3 c5" "corner_at 6 3 1 c7"
    by (simp_all add: same_shape_def edge_at_def corner_at_def cell_faces_explicit cell_defs insert_commute)
  show ?thesis
    unfolding sd
    by (rule rotate_faces_relabel [OF E C]) (simp_all add: turn_def side_edge_defs)
qed

lemma rotate_faces_ring:
  assumes "f \<in> {CUBE_WHITE, CUBE_YELLOW, CUBE_RED, CUBE_GREEN, CUBE_ORANGE, CUBE_BLUE}" and "ring_ok f sd"
  shows "rotate_faces d f sd = Inr (map (relabel d f) sd)"
  using assms
  by (cases rule: valid_side_cases)
     (simp_all add: rotate_faces_ring_1 rotate_faces_ring_2 rotate_faces_ring_3 rotate_faces_ring_4
        rotate_faces_ring_5 rotate_faces_ring_6)

lemma relabel_length [simp]: "length (relabel d f c) = length c"
  by (simp add: relabel_def)

lemma relabel_explicit:
  "relabel d f [k, a, b, x, p, q, r] =
     (if k = 1 then [k, a, b, turn d f x, turn d f p, q, r]
      else if k = 2 then [k, a, b, x, turn d f p, turn d f q, turn d f r]
      else [k, a, b, x, p, q, r])"
  by (simp add: relabel_def)

lemma same_shape_relabel:
  assumes "same_shape x c" and "length x = 7"
  shows "same_shape (relabel d f x) (relabel d f c)"
proof -
  from assms(1) have "length c = 7" by (simp add: same_shape_def)
  then obtain k a b y p q r where c: "c = [k, a, b, y, p, q, r]"
    using length7_explicit by blast
  from assms(2) obtain k' a' b' y' p' q' r' where x: "x = [k', a', b', y', p', q', r']"
    using length7_explicit by blast
  from assms(1) have k: "k' = k"
    by (simp add: same_shape_def c x)
  from assms(1) have fs: "cell_faces [k, a, b, y, p, q, r] = cell_faces [k, a', b', y', p', q', r']"
    unfolding same_shape_def c x k by simp
  have img: "cell_faces (relabel d f [k, u, v, w, p1, p2, p3]) = turn d f ` cell_faces [k, u, v, w, p1, p2, p3]"
    for u v w p1 p2 p3
    by (simp add: relabel_explicit cell_faces_explicit)
  show ?thesis
    unfolding same_shape_def c x k img fs
    by (simp add: relabel_explicit)
qed

lemma same_shape_trans: "same_shape a b \<Longrightarrow> same_shape b c \<Longrightarrow> same_shape a c"
  by (simp add: same_shape_def)

lemma list_all2_rotate:
  assumes "list_all2 P xs ys"
  shows "list_all2 P (rotate n xs) (rotate n ys)"
proof -
  from assms have "length xs = length ys" by (rule list_all2_lengthD)
  with assms show ?thesis
    by (simp add: rotate_drop_take list_all2_appendI list_all2_dropI list_all2_takeI)
qed

lemma ring_turn_same_shape:
  assumes "list_all2 same_shape xs sd" and "\<forall>x\<in>set xs. length x = 7"
  shows "list_all2 same_shape (ring_turn d f xs) (ring_turn d f sd)"
proof -
  from assms have "list_all2 (\<lambda>x c. same_shape (relabel d f x) (relabel d f c)) xs sd"
    by (auto elim!: list_all2_mono [rotated -1] simp: list_all2_conv_all_nth same_shape_relabel)
  then have "list_all2 same_shape (map (relabel d f) xs) (map (relabel d f) sd)"
    by (simp add: list_all2_map1 list_all2_map2)
  then show ?thesis
    unfolding ring_turn_def ring_shift_def by (rule list_all2_rotate)
qed

lemma rotate_explicit:
  "rotate 6 [a, b, c, d, e, f, g, h] = [g, h, a, b, c, d, e, f]"
  "rotate 2 [a, b, c, d, e, f, g, h] = [c, d, e, f, g, h, a, b]"
  by (simp_all add: eval_nat_numeral)

lemma same_shape_explicit:
  "same_shape [k', a', b', y', p', q', r'] [k, a, b, y, p, q, r] \<longleftrightarrow>
     k = k' \<and> cell_faces [k, a, b, y, p, q, r] = cell_faces [k, a', b', y', p', q', r']"
  by (auto simp: same_shape_def)

lemma solved_ring_turn:
  assumes "f \<in> {CUBE_WHITE, CUBE_YELLOW, CUBE_RED, CUBE_GREEN, CUBE_ORANGE, CUBE_BLUE}"
  shows "ring_ok f (ring_turn d f (solved_ring f))"
proof (cases "d = 0")
  case True
  from assms show ?thesis
    by (cases rule: valid_side_cases)
       (simp_all add: True ring_ok_def solved_ring_explicit ring_turn_def ring_shift_def rotate_explicit
          cell_defs relabel_explicit turn_def side_edge_defs same_shape_explicit cell_faces_explicit
          insert_commute)
next
  case False
  from assms show ?thesis
    by (cases rule: valid_side_cases)
       (simp_all add: False ring_ok_def solved_ring_explicit ring_turn_def ring_shift_def rotate_explicit
          cell_defs relabel_explicit turn_def side_edge_defs same_shape_explicit cell_faces_explicit
          insert_commute)
qed

lemma solved_ring_cells:
  assumes "f \<in> {CUBE_WHITE, CUBE_YELLOW, CUBE_RED, CUBE_GREEN, CUBE_ORANGE, CUBE_BLUE}"
  shows "\<forall>x\<in>set (solved_ring f). length x = 7" and "length (solved_ring f) = 8"
  using assms
  by (cases rule: valid_side_cases; simp add: solved_ring_explicit cell_defs)+

lemma ring_turn_ok:
  assumes f: "f \<in> {CUBE_WHITE, CUBE_YELLOW, CUBE_RED, CUBE_GREEN, CUBE_ORANGE, CUBE_BLUE}"
    and ok: "ring_ok f sd"
  shows "ring_ok f (ring_turn d f sd)"
proof -
  from ok have "list_all2 same_shape (ring_turn d f (solved_ring f)) (ring_turn d f sd)"
    unfolding ring_ok_def by (rule ring_turn_same_shape) (rule solved_ring_cells [OF f])
  with solved_ring_turn [OF f, of d] show ?thesis
    unfolding ring_ok_def
    by (rule list_all2_trans [rotated 1]) (blast intro: same_shape_trans)
qed

lemma ring_ok_lengths:
  assumes f: "f \<in> {CUBE_WHITE, CUBE_YELLOW, CUBE_RED, CUBE_GREEN, CUBE_ORANGE, CUBE_BLUE}"
    and ok: "ring_ok f sd"
  shows "length sd = 8" and "\<forall>c\<in>set sd. length c = 7"
proof -
  from ok have l: "length (solved_ring f) = length sd"
    unfolding ring_ok_def by (rule list_all2_lengthD)
  with solved_ring_cells(2) [OF f] show "length sd = 8" by simp
  show "\<forall>c\<in>set sd. length c = 7"
  proof
    fix c assume "c \<in> set sd"
    then obtain i where i: "i < length sd" "sd ! i = c"
      by (auto simp: in_set_conv_nth)
    with ok l have "same_shape (solved_ring f ! i) c"
      unfolding ring_ok_def by (auto dest: list_all2_nthD2)
    then show "length c = 7" by (simp add: same_shape_def)
  qed
qed

lemma turn_back:
  assumes "f \<in> {CUBE_WHITE, CUBE_YELLOW, CUBE_RED, CUBE_GREEN, CUBE_ORANGE, CUBE_BLUE}"
  shows "turn ROTATE_COUNTER f (turn ROTATE_CLOCKWISE f v) = v"
  using assms
  by (cases rule: valid_side_cases) (simp_all add: turn_def side_edge_defs)

lemma turn_outside: "v \<notin> {1, 2, 3, 4, 5, 6} \<Longrightarrow> turn d f v = v"
  by (simp add: turn_def side_edge_defs)

lemma turn_four:
  assumes "f \<in> {CUBE_WHITE, CUBE_YELLOW, CUBE_RED, CUBE_GREEN, CUBE_ORANGE, CUBE_BLUE}"
  shows "turn d f (turn d f (turn d f (turn d f v))) = v"
proof (cases "v \<in> {1, 2, 3, 4, 5, 6}")
  case False
  then show ?thesis by (simp add: turn_outside)
next
  case v: True
  show ?thesis
  proof (cases "d = 0")
    case True
    from assms v show ?thesis
      unfolding True by (elim insertE emptyE; simp add: turn_def side_edge_defs)
  next
    case False
    from assms v show ?thesis
      by (elim insertE emptyE; simp add: False turn_def side_edge_defs)
  qed
qed

lemma relabel_back:
  assumes "f \<in> {CUBE_WHITE, CUBE_YELLOW, CUBE_RED, CUBE_GREEN, CUBE_ORANGE, CUBE_BLUE}"
    and "length c = 7"
  shows "relabel ROTATE_COUNTER f (relabel ROTATE_CLOCKWISE f c) = c"
proof -
  from assms(2) obtain k a b y p q r where c: "c = [k, a, b, y, p, q, r]"
    using length7_explicit by blast
  show ?thesis
    unfolding c by (simp add: relabel_explicit turn_back [OF assms(1)])
qed

lemma relabel_four:
  assumes "f \<in> {CUBE_WHITE, CUBE_YELLOW, CUBE_RED, CUBE_GREEN, CUBE_ORANGE, CUBE_BLUE}"
    and "length c = 7"
  shows "relabel d f (relabel d f (relabel d f (relabel d f c))) = c"
proof -
  from assms(2) obtain k a b y p q r where c: "c = [k, a, b, y, p, q, r]"
    using length7_explicit by blast
  show ?thesis
    unfolding c by (simp add: relabel_explicit turn_four [OF assms(1)])
qed

lemma ring_turn_explicit:
  "ring_turn d f [a, b, c, x, e, y, g, h] =
     (if d = ROTATE_CLOCKWISE
      then [relabel d f g, relabel d f h, relabel d f a, relabel d f b,
            relabel d f c, relabel d f x, relabel d f e, relabel d f y]
      else [relabel d f c, relabel d f x, relabel d f e, relabel d f y,
            relabel d f g, relabel d f h, relabel d f a, relabel d f b])"
  by (simp add: ring_turn_def ring_shift_def rotate_explicit)

lemma ring_turn_back:
  assumes f: "f \<in> {CUBE_WHITE, CUBE_YELLOW, CUBE_RED, CUBE_GREEN, CUBE_ORANGE, CUBE_BLUE}"
    and ok: "ring_ok f sd"
  shows "ring_turn ROTATE_COUNTER f (ring_turn ROTATE_CLOCKWISE f sd) = sd"
proof -
  from ring_ok_lengths(1) [OF f ok] obtain a b c x e y g h where sd: "sd = [a, b, c, x, e, y, g, h]"
    using length8_explicit by blast
  from ring_ok_lengths(2) [OF f ok] show ?thesis
    unfolding sd by (simp add: ring_turn_explicit relabel_back [OF f])
qed

lemma ring_turn_four:
  assumes f: "f \<in> {CUBE_WHITE, CUBE_YELLOW, CUBE_RED, CUBE_GREEN, CUBE_ORANGE, CUBE_BLUE}"
    and ok: "ring_ok f sd"
  shows "ring_turn d f (ring_turn d f (ring_turn d f (ring_turn d f sd))) = sd"
proof -
  from ring_ok_lengths(1) [OF f ok] obtain a b c x e y g h where sd: "sd = [a, b, c, x, e, y, g, h]"
    using length8_explicit by blast
  from ring_ok_lengths(2) [OF f ok] show ?thesis
    unfolding sd by (simp add: ring_turn_explicit relabel_four [OF f])
qed

lemma side_get_update:
  assumes "c = [[t0, t1, t2, t3, t4, t5, t6, t7],
               [m0, m1, m2, m3, m4, m5, m6, m7],
               [b0, b1, b2, b3, b4, b5, b6, b7]]"
  shows "side_get (s\<lparr>cube := c\<rparr>) 1 = Inr [t0, t1, t2, t3, t4, t5, t6, t7]"
    and "side_get (s\<lparr>cube := c\<rparr>) 2 = Inr [b0, b7, b6, b5, b4, b3, b2, b1]"
    and "side_get (s\<lparr>cube := c\<rparr>) 3 = Inr [t0, t7, m7, b7, b0, b1, m1, t1]"
    and "side_get (s\<lparr>cube := c\<rparr>) 4 = Inr [t2, t1, m1, b1, b2, b3, m3, t3]"
    and "side_get (s\<lparr>cube := c\<rparr>) 5 = Inr [t4, t3, m3, b3, b4, b5, m5, t5]"
    and "side_get (s\<lparr>cube := c\<rparr>) 6 = Inr [t6, t5, m5, b5, b6, b7, m7, t7]"
  unfolding assms by (rule side_get_explicit; simp)+

lemma side_put_update:
  assumes "c = [[t0, t1, t2, t3, t4, t5, t6, t7],
               [m0, m1, m2, m3, m4, m5, m6, m7],
               [b0, b1, b2, b3, b4, b5, b6, b7]]"
  shows "side_put (s\<lparr>cube := c\<rparr>) 1 [x0, x1, x2, x3, x4, x5, x6, x7] =
       Inr (s\<lparr>cube := [[x0, x1, x2, x3, x4, x5, x6, x7],
                       [m0, m1, m2, m3, m4, m5, m6, m7],
                       [b0, b1, b2, b3, b4, b5, b6, b7]]\<rparr>)"
    and "side_put (s\<lparr>cube := c\<rparr>) 2 [x0, x1, x2, x3, x4, x5, x6, x7] =
       Inr (s\<lparr>cube := [[t0, t1, t2, t3, t4, t5, t6, t7],
                       [m0, m1, m2, m3, m4, m5, m6, m7],
                       [x0, x7, x6, x5, x4, x3, x2, x1]]\<rparr>)"
    and "side_put (s\<lparr>cube := c\<rparr>) 3 [x0, x1, x2, x3, x4, x5, x6, x7] =
       Inr (s\<lparr>cube := [[x0, x7, t2, t3, t4, t5, t6, x1],
                       [m0, x6, m2, m3, m4, m5, m6, x2],
                       [x4, x5, b2, b3, b4, b5, b6, x3]]\<rparr>)"
    and "side_put (s\<lparr>cube := c\<rparr>) 4 [x0, x1, x2, x3, x4, x5, x6, x7] =
       Inr (s\<lparr>cube := [[t0, x1, x0, x7, t4, t5, t6, t7],
                       [m0, x2, m2, x6, m4, m5, m6, m7],
                       [b0, x3, x4, x5, b4, b5, b6, b7]]\<rparr>)"
    and "side_put (s\<lparr>cube := c\<rparr>) 5 [x0, x1, x2, x3, x4, x5, x6, x7] =
       Inr (s\<lparr>cube := [[t0, t1, t2, x1, x0, x7, t6, t7],
                       [m0, m1, m2, x2, m4, x6, m6, m7],
                       [b0, b1, b2, x3, x4, x5, b6, b7]]\<rparr>)"
    and "side_put (s\<lparr>cube := c\<rparr>) 6 [x0, x1, x2, x3, x4, x5, x6, x7] =
       Inr (s\<lparr>cube := [[t0, t1, t2, t3, t4, x1, x0, x7],
                       [m0, m1, m2, m3, m4, x2, m6, x6],
                       [b0, b1, b2, b3, b4, x3, x4, x5]]\<rparr>)"
  unfolding assms by (subst side_put_explicit; simp)+

lemmas side_get_upd = side_get_update [OF refl]
lemmas side_put_upd = side_put_update [OF refl]

lemma cube_as_update: "cube s = c \<Longrightarrow> s = s\<lparr>cube := c\<rparr>"
  by simp

lemma cube_inv_wf: "cube_inv s \<Longrightarrow> cube_wf s"
  by (auto simp: cube_inv_def cube_wf_def init_top_def init_mid_def init_bot_def list_all2_Cons1)

lemma side_get_put:
  assumes wf: "cube_wf s"
    and f: "f \<in> {CUBE_WHITE, CUBE_YELLOW, CUBE_RED, CUBE_GREEN, CUBE_ORANGE, CUBE_BLUE}"
    and len: "length sd = 8"
  shows "\<exists>s'. side_put s f sd = Inr s' \<and> side_get s' f = Inr sd \<and> cube_wf s' \<and>
              cube_solved s' = cube_solved s"
proof -
  from wf obtain t0 t1 t2 t3 t4 t5 t6 t7 m0 m1 m2 m3 m4 m5 m6 m7 b0 b1 b2 b3 b4 b5 b6 b7
    where c: "cube s = [[t0, t1, t2, t3, t4, t5, t6, t7],
                        [m0, m1, m2, m3, m4, m5, m6, m7],
                        [b0, b1, b2, b3, b4, b5, b6, b7]]"
    by (rule cube_wf_explicit)
  from len obtain x0 x1 x2 x3 x4 x5 x6 x7 where sd: "sd = [x0, x1, x2, x3, x4, x5, x6, x7]"
    using length8_explicit by blast
  from f have "\<exists>s'. side_put (s\<lparr>cube := cube s\<rparr>) f sd = Inr s' \<and> side_get s' f = Inr sd \<and> cube_wf s' \<and>
              cube_solved s' = cube_solved s"
    unfolding c sd
    by (cases rule: valid_side_cases) (simp_all add: side_get_upd side_put_upd cube_wf_def)
  then show ?thesis by simp
qed

lemma side_put_put:
  assumes wf: "cube_wf s"
    and f: "f \<in> {CUBE_WHITE, CUBE_YELLOW, CUBE_RED, CUBE_GREEN, CUBE_ORANGE, CUBE_BLUE}"
    and len: "length sd = 8" "length sd2 = 8"
    and put: "side_put s f sd = Inr s'"
  shows "side_put s' f sd2 = side_put s f sd2"
proof -
  from wf obtain t0 t1 t2 t3 t4 t5 t6 t7 m0 m1 m2 m3 m4 m5 m6 m7 b0 b1 b2 b3 b4 b5 b6 b7
    where c: "cube s = [[t0, t1, t2, t3, t4, t5, t6, t7],
                        [m0, m1, m2, m3, m4, m5, m6, m7],
                        [b0, b1, b2, b3, b4, b5, b6, b7]]"
    by (rule cube_wf_explicit)
  from len obtain x0 x1 x2 x3 x4 x5 x6 x7 y0 y1 y2 y3 y4 y5 y6 y7
    where sd: "sd = [x0, x1, x2, x3, x4, x5, x6, x7]" "sd2 = [y0, y1, y2, y3, y4, y5, y6, y7]"
    using length8_explicit [of sd] length8_explicit [of sd2] by metis
  from put have put': "side_put (s\<lparr>cube := cube s\<rparr>) f sd = Inr s'" by simp
  have eq: "side_put s f sd2 = side_put (s\<lparr>cube := cube s\<rparr>) f sd2" by simp
  from f put' show ?thesis
    unfolding eq unfolding c sd
    by (cases rule: valid_side_cases) (auto simp: side_put_upd)
qed

lemmas init_layers = init_top_def init_mid_def init_bot_def

lemma side_get_inv:
  assumes inv: "cube_inv s"
    and f: "f \<in> {CUBE_WHITE, CUBE_YELLOW, CUBE_RED, CUBE_GREEN, CUBE_ORANGE, CUBE_BLUE}"
  shows "\<exists>sd. side_get s f = Inr sd \<and> ring_ok f sd"
proof -
  from cube_inv_wf [OF inv]
  obtain t0 t1 t2 t3 t4 t5 t6 t7 m0 m1 m2 m3 m4 m5 m6 m7 b0 b1 b2 b3 b4 b5 b6 b7
    where c: "cube s = [[t0, t1, t2, t3, t4, t5, t6, t7],
                        [m0, m1, m2, m3, m4, m5, m6, m7],
                        [b0, b1, b2, b3, b4, b5, b6, b7]]"
    by (rule cube_wf_explicit)
  from inv have shapes: "list_all2 (list_all2 same_shape) [init_top, init_mid, init_bot]
      [[t0, t1, t2, t3, t4, t5, t6, t7], [m0, m1, m2, m3, m4, m5, m6, m7], [b0, b1, b2, b3, b4, b5, b6, b7]]"
    by (simp add: cube_inv_def c)
  from f shapes have "\<exists>sd. side_get (s\<lparr>cube := cube s\<rparr>) f = Inr sd \<and> ring_ok f sd"
    unfolding c
    by (cases rule: valid_side_cases)
       (simp_all add: side_get_upd ring_ok_def solved_ring_explicit init_layers)
  then show ?thesis by simp
qed

lemma side_put_inv:
  assumes inv: "cube_inv s"
    and f: "f \<in> {CUBE_WHITE, CUBE_YELLOW, CUBE_RED, CUBE_GREEN, CUBE_ORANGE, CUBE_BLUE}"
    and ok: "ring_ok f sd"
    and put: "side_put s f sd = Inr s'"
  shows "cube_inv s'"
proof -
  from cube_inv_wf [OF inv]
  obtain t0 t1 t2 t3 t4 t5 t6 t7 m0 m1 m2 m3 m4 m5 m6 m7 b0 b1 b2 b3 b4 b5 b6 b7
    where c: "cube s = [[t0, t1, t2, t3, t4, t5, t6, t7],
                        [m0, m1, m2, m3, m4, m5, m6, m7],
                        [b0, b1, b2, b3, b4, b5, b6, b7]]"
    by (rule cube_wf_explicit)
  from inv have shapes: "list_all2 (list_all2 same_shape) [init_top, init_mid, init_bot]
      [[t0, t1, t2, t3, t4, t5, t6, t7], [m0, m1, m2, m3, m4, m5, m6, m7], [b0, b1, b2, b3, b4, b5, b6, b7]]"
    and solved: "cube_solved s = [init_top, init_mid, init_bot]"
    by (simp_all add: cube_inv_def c)
  from ring_ok_lengths(1) [OF f ok] obtain x0 x1 x2 x3 x4 x5 x6 x7
    where sd: "sd = [x0, x1, x2, x3, x4, x5, x6, x7]"
    using length8_explicit by blast
  from put have put': "side_put (s\<lparr>cube := cube s\<rparr>) f sd = Inr s'" by simp
  from f put' ok shapes solved show ?thesis
    unfolding c sd
    by (cases rule: valid_side_cases)
       (auto simp: side_put_upd ring_ok_def solved_ring_explicit init_layers cube_inv_def)
qed

lemma RotateSide_inv:
  assumes inv: "cube_inv s"
    and f: "f \<in> {CUBE_WHITE, CUBE_YELLOW, CUBE_RED, CUBE_GREEN, CUBE_ORANGE, CUBE_BLUE}"
    and get: "side_get s f = Inr sd"
  shows "RotateSide s f d = side_put s f (ring_turn d f sd)" and "ring_ok f sd"
proof -
  from side_get_inv [OF inv f] get show ok: "ring_ok f sd" by simp
  have faces: "rotate_faces d f sd = Inr (map (relabel d f) sd)"
    by (rule rotate_faces_ring [OF f ok])
  have "length (map (relabel d f) sd) = 8"
    by (simp add: ring_ok_lengths(1) [OF f ok])
  then have colors: "rotate_colors d f (map (relabel d f) sd) = Inr (ring_shift d (map (relabel d f) sd))"
    by (rule rotate_colors_shift)
  show "RotateSide s f d = side_put s f (ring_turn d f sd)"
    by (simp add: RotateSide_def get faces colors ring_turn_def)
qed

lemma RotateSide_after_put:
  assumes inv: "cube_inv s"
    and f: "f \<in> {CUBE_WHITE, CUBE_YELLOW, CUBE_RED, CUBE_GREEN, CUBE_ORANGE, CUBE_BLUE}"
    and ok: "ring_ok f sd"
    and put: "side_put s f sd = Inr s1"
  shows "RotateSide s1 f d = side_put s f (ring_turn d f sd)" and "cube_inv s1"
proof -
  show inv1: "cube_inv s1"
    by (rule side_put_inv [OF inv f ok put])
  from side_get_put [OF cube_inv_wf [OF inv] f ring_ok_lengths(1) [OF f ok]] put
  have get1: "side_get s1 f = Inr sd" by auto
  have "RotateSide s1 f d = side_put s1 f (ring_turn d f sd)"
    by (rule RotateSide_inv(1) [OF inv1 f get1])
  also have "\<dots> = side_put s f (ring_turn d f sd)"
    by (rule side_put_put [OF cube_inv_wf [OF inv] f ring_ok_lengths(1) [OF f ok]
          ring_ok_lengths(1) [OF f ring_turn_ok [OF f ok]] put])
  finally show "RotateSide s1 f d = side_put s f (ring_turn d f sd)" .
qed

lemma side_put_total:
  assumes inv: "cube_inv s"
    and f: "f \<in> {CUBE_WHITE, CUBE_YELLOW, CUBE_RED, CUBE_GREEN, CUBE_ORANGE, CUBE_BLUE}"
    and ok: "ring_ok f sd"
  obtains s1 where "side_put s f sd = Inr s1"
  using side_get_put [OF cube_inv_wf [OF inv] f ring_ok_lengths(1) [OF f ok]] by blast

lemma same_shape_refl: "length c = 7 \<Longrightarrow> same_shape c c"
  by (simp add: same_shape_def)

lemma RubicsCube_inv: "cube_inv RubicsCube"
  by (simp add: cube_inv_def RubicsCube_def init_layers same_shape_refl cell_defs)

lemma reachable_inv: "reachable s \<Longrightarrow> cube_inv s"
proof (induction rule: reachable.induct)
  case reachable_init
  show ?case by (rule RubicsCube_inv)
next
  case (reachable_rotate s f d s')
  from side_get_inv [OF reachable_rotate.IH reachable_rotate.hyps(2)]
  obtain sd where get: "side_get s f = Inr sd" and ok: "ring_ok f sd" by blast
  from RotateSide_inv(1) [OF reachable_rotate.IH reachable_rotate.hyps(2) get, of d] reachable_rotate.hyps(4)
  have "side_put s f (ring_turn d f sd) = Inr s'" by simp
  then show ?case
    by (rule side_put_inv [OF reachable_rotate.IH reachable_rotate.hyps(2)
          ring_turn_ok [OF reachable_rotate.hyps(2) ok]])
qed

text \<open>
  Claim C2.  For each of the six colours \<open>f\<close>, each of the two directions \<open>d\<close> and every
  reachable cube, four successive calls \<open>RotateSide(f, d)\<close> all return and leave exactly
  the object they started from: the three layers cell by cell, and the solved copy.
\<close>

theorem RotateSide_four_times:
  assumes r: "reachable s"
    and f: "side_id_P \<in> {CUBE_WHITE, CUBE_YELLOW, CUBE_RED, CUBE_GREEN, CUBE_ORANGE, CUBE_BLUE}"
    and d: "direction_P \<in> {ROTATE_CLOCKWISE, ROTATE_COUNTER}"
  shows "and_then (and_then (and_then (RotateSide s side_id_P direction_P)
           (\<lambda>s1. RotateSide s1 side_id_P direction_P))
           (\<lambda>s2. RotateSide s2 side_id_P direction_P))
           (\<lambda>s3. RotateSide s3 side_id_P direction_P) = Inr s"
proof -
  let ?h = "ring_turn direction_P side_id_P"
  have inv: "cube_inv s" by (rule reachable_inv [OF r])
  from side_get_writes_back [OF cube_inv_wf [OF inv] f]
  obtain sd where get: "side_get s side_id_P = Inr sd" and put0: "side_put s side_id_P sd = Inr s"
    by blast
  have ok0: "ring_ok side_id_P sd" by (rule RotateSide_inv(2) [OF inv f get])
  have ok1: "ring_ok side_id_P (?h sd)" by (rule ring_turn_ok [OF f ok0])
  have ok2: "ring_ok side_id_P (?h (?h sd))" by (rule ring_turn_ok [OF f ok1])
  have ok3: "ring_ok side_id_P (?h (?h (?h sd)))" by (rule ring_turn_ok [OF f ok2])
  obtain s1 where put1: "side_put s side_id_P (?h sd) = Inr s1"
    by (rule side_put_total [OF inv f ok1])
  obtain s2 where put2: "side_put s side_id_P (?h (?h sd)) = Inr s2"
    by (rule side_put_total [OF inv f ok2])
  obtain s3 where put3: "side_put s side_id_P (?h (?h (?h sd))) = Inr s3"
    by (rule side_put_total [OF inv f ok3])
  have c1: "RotateSide s side_id_P direction_P = Inr s1"
    using RotateSide_after_put(1) [OF inv f ok0 put0, of direction_P] put1 by simp
  have c2: "RotateSide s1 side_id_P direction_P = Inr s2"
    using RotateSide_after_put(1) [OF inv f ok1 put1, of direction_P] put2 by simp
  have c3: "RotateSide s2 side_id_P direction_P = Inr s3"
    using RotateSide_after_put(1) [OF inv f ok2 put2, of direction_P] put3 by simp
  have c4: "RotateSide s3 side_id_P direction_P = Inr s"
    using RotateSide_after_put(1) [OF inv f ok3 put3, of direction_P] put0
    by (simp add: ring_turn_four [OF f ok0])
  show ?thesis by (simp add: c1 c2 c3 c4)
qed

theorem RotateSide_four_times_witness:
  "reachable RubicsCube \<and>
   and_then (and_then (and_then (RotateSide RubicsCube CUBE_GREEN ROTATE_COUNTER)
     (\<lambda>s1. RotateSide s1 CUBE_GREEN ROTATE_COUNTER))
     (\<lambda>s2. RotateSide s2 CUBE_GREEN ROTATE_COUNTER))
     (\<lambda>s3. RotateSide s3 CUBE_GREEN ROTATE_COUNTER) = Inr RubicsCube"
proof -
  have f: "CUBE_GREEN \<in> {CUBE_WHITE, CUBE_YELLOW, CUBE_RED, CUBE_GREEN, CUBE_ORANGE, CUBE_BLUE}"
    and d: "ROTATE_COUNTER \<in> {ROTATE_CLOCKWISE, ROTATE_COUNTER}"
    by simp_all
  from RotateSide_four_times [OF reachable_init f d] reachable_init show ?thesis
    by (rule conjI [rotated])
qed

text \<open>
  Claim C3.  For each of the six colours \<open>f\<close> and every reachable cube, a clockwise call
  \<open>RotateSide(f, Clockwise)\<close> and then a counter-clockwise call both return and leave
  exactly the object they started from.
\<close>

theorem RotateSide_clockwise_then_counter:
  assumes r: "reachable s"
    and f: "side_id_P \<in> {CUBE_WHITE, CUBE_YELLOW, CUBE_RED, CUBE_GREEN, CUBE_ORANGE, CUBE_BLUE}"
  shows "and_then (RotateSide s side_id_P ROTATE_CLOCKWISE)
           (\<lambda>s1. RotateSide s1 side_id_P ROTATE_COUNTER) = Inr s"
proof -
  have inv: "cube_inv s" by (rule reachable_inv [OF r])
  from side_get_writes_back [OF cube_inv_wf [OF inv] f]
  obtain sd where get: "side_get s side_id_P = Inr sd" and put0: "side_put s side_id_P sd = Inr s"
    by blast
  have ok0: "ring_ok side_id_P sd" by (rule RotateSide_inv(2) [OF inv f get])
  have ok1: "ring_ok side_id_P (ring_turn ROTATE_CLOCKWISE side_id_P sd)"
    by (rule ring_turn_ok [OF f ok0])
  obtain s1 where put1: "side_put s side_id_P (ring_turn ROTATE_CLOCKWISE side_id_P sd) = Inr s1"
    by (rule side_put_total [OF inv f ok1])
  have c1: "RotateSide s side_id_P ROTATE_CLOCKWISE = Inr s1"
    using RotateSide_after_put(1) [OF inv f ok0 put0, of ROTATE_CLOCKWISE] put1 by simp
  have c2: "RotateSide s1 side_id_P ROTATE_COUNTER = Inr s"
    using RotateSide_after_put(1) [OF inv f ok1 put1, of ROTATE_COUNTER] put0
    by (simp add: ring_turn_back [OF f ok0])
  show ?thesis by (simp add: c1 c2)
qed

theorem RotateSide_clockwise_then_counter_witness:
  "reachable RubicsCube \<and>
   and_then (RotateSide RubicsCube CUBE_BLUE ROTATE_CLOCKWISE)
     (\<lambda>s1. RotateSide s1 CUBE_BLUE ROTATE_COUNTER) = Inr RubicsCube"
proof -
  have f: "CUBE_BLUE \<in> {CUBE_WHITE, CUBE_YELLOW, CUBE_RED, CUBE_GREEN, CUBE_ORANGE, CUBE_BLUE}"
    by simp
  from RotateSide_clockwise_then_counter [OF reachable_init f] reachable_init show ?thesis
    by (rule conjI [rotated])
qed

lemma white_yellow_apart:
  assumes wf: "cube_wf s" and len: "length a = 8" "length b = 8"
  shows "\<exists>s1 s2 s'.
           side_put s CUBE_WHITE a = Inr s1 \<and> side_put s CUBE_YELLOW b = Inr s2 \<and>
           side_get s1 CUBE_YELLOW = side_get s CUBE_YELLOW \<and>
           side_get s2 CUBE_WHITE = side_get s CUBE_WHITE \<and>
           side_put s1 CUBE_YELLOW b = Inr s' \<and> side_put s2 CUBE_WHITE a = Inr s'"
proof -
  from wf obtain t0 t1 t2 t3 t4 t5 t6 t7 m0 m1 m2 m3 m4 m5 m6 m7 b0 b1 b2 b3 b4 b5 b6 b7
    where c: "cube s = [[t0, t1, t2, t3, t4, t5, t6, t7],
                        [m0, m1, m2, m3, m4, m5, m6, m7],
                        [b0, b1, b2, b3, b4, b5, b6, b7]]"
    by (rule cube_wf_explicit)
  from len obtain x0 x1 x2 x3 x4 x5 x6 x7 y0 y1 y2 y3 y4 y5 y6 y7
    where sd: "a = [x0, x1, x2, x3, x4, x5, x6, x7]" "b = [y0, y1, y2, y3, y4, y5, y6, y7]"
    using length8_explicit [of a] length8_explicit [of b] by metis
  have "\<exists>s1 s2 s'.
           side_put (s\<lparr>cube := cube s\<rparr>) CUBE_WHITE a = Inr s1 \<and>
           side_put (s\<lparr>cube := cube s\<rparr>) CUBE_YELLOW b = Inr s2 \<and>
           side_get s1 CUBE_YELLOW = side_get (s\<lparr>cube := cube s\<rparr>) CUBE_YELLOW \<and>
           side_get s2 CUBE_WHITE = side_get (s\<lparr>cube := cube s\<rparr>) CUBE_WHITE \<and>
           side_put s1 CUBE_YELLOW b = Inr s' \<and> side_put s2 CUBE_WHITE a = Inr s'"
    unfolding c sd by (simp add: side_get_upd side_put_upd)
  then show ?thesis by simp
qed

text \<open>
  Claim C7.  For all directions \<open>d1\<close> and \<open>d2\<close> and every reachable cube, the calls
  \<open>RotateSide(White, d1)\<close> then \<open>RotateSide(Yellow, d2)\<close> and the calls
  \<open>RotateSide(Yellow, d2)\<close> then \<open>RotateSide(White, d1)\<close> all return and leave the same
  object.
\<close>

theorem RotateSide_white_yellow_commute:
  assumes r: "reachable s"
    and d: "d1 \<in> {ROTATE_CLOCKWISE, ROTATE_COUNTER}" "d2 \<in> {ROTATE_CLOCKWISE, ROTATE_COUNTER}"
  shows "\<exists>s'. and_then (RotateSide s CUBE_WHITE d1) (\<lambda>s1. RotateSide s1 CUBE_YELLOW d2) = Inr s' \<and>
              and_then (RotateSide s CUBE_YELLOW d2) (\<lambda>s2. RotateSide s2 CUBE_WHITE d1) = Inr s'"
proof -
  have w: "CUBE_WHITE \<in> {CUBE_WHITE, CUBE_YELLOW, CUBE_RED, CUBE_GREEN, CUBE_ORANGE, CUBE_BLUE}"
    and y: "CUBE_YELLOW \<in> {CUBE_WHITE, CUBE_YELLOW, CUBE_RED, CUBE_GREEN, CUBE_ORANGE, CUBE_BLUE}"
    by simp_all
  have inv: "cube_inv s" by (rule reachable_inv [OF r])
  from side_get_inv [OF inv w] obtain sw where gw: "side_get s CUBE_WHITE = Inr sw"
    and okw: "ring_ok CUBE_WHITE sw" by blast
  from side_get_inv [OF inv y] obtain sy where gy: "side_get s CUBE_YELLOW = Inr sy"
    and oky: "ring_ok CUBE_YELLOW sy" by blast
  let ?a = "ring_turn d1 CUBE_WHITE sw" and ?b = "ring_turn d2 CUBE_YELLOW sy"
  have oka: "ring_ok CUBE_WHITE ?a" by (rule ring_turn_ok [OF w okw])
  have okb: "ring_ok CUBE_YELLOW ?b" by (rule ring_turn_ok [OF y oky])
  from white_yellow_apart [OF cube_inv_wf [OF inv] ring_ok_lengths(1) [OF w oka] ring_ok_lengths(1) [OF y okb]]
  obtain s1 s2 s' where p1: "side_put s CUBE_WHITE ?a = Inr s1" and p2: "side_put s CUBE_YELLOW ?b = Inr s2"
    and g1: "side_get s1 CUBE_YELLOW = side_get s CUBE_YELLOW"
    and g2: "side_get s2 CUBE_WHITE = side_get s CUBE_WHITE"
    and p12: "side_put s1 CUBE_YELLOW ?b = Inr s'" and p21: "side_put s2 CUBE_WHITE ?a = Inr s'"
    by blast
  have inv1: "cube_inv s1" by (rule side_put_inv [OF inv w oka p1])
  have inv2: "cube_inv s2" by (rule side_put_inv [OF inv y okb p2])
  have "RotateSide s CUBE_WHITE d1 = Inr s1"
    using RotateSide_inv(1) [OF inv w gw, of d1] p1 by simp
  moreover have "RotateSide s1 CUBE_YELLOW d2 = Inr s'"
    using RotateSide_inv(1) [OF inv1 y, of sy d2] g1 gy p12 by simp
  moreover have "RotateSide s CUBE_YELLOW d2 = Inr s2"
    using RotateSide_inv(1) [OF inv y gy, of d2] p2 by simp
  moreover have "RotateSide s2 CUBE_WHITE d1 = Inr s'"
    using RotateSide_inv(1) [OF inv2 w, of sw d1] g2 gw p21 by simp
  ultimately show ?thesis by simp
qed

theorem RotateSide_white_yellow_commute_witness:
  "reachable RubicsCube \<and>
   (\<exists>s'. and_then (RotateSide RubicsCube CUBE_WHITE ROTATE_CLOCKWISE)
            (\<lambda>s1. RotateSide s1 CUBE_YELLOW ROTATE_COUNTER) = Inr s' \<and>
          and_then (RotateSide RubicsCube CUBE_YELLOW ROTATE_COUNTER)
            (\<lambda>s2. RotateSide s2 CUBE_WHITE ROTATE_CLOCKWISE) = Inr s')"
proof -
  have d: "ROTATE_CLOCKWISE \<in> {ROTATE_CLOCKWISE, ROTATE_COUNTER}"
    "ROTATE_COUNTER \<in> {ROTATE_CLOCKWISE, ROTATE_COUNTER}"
    by simp_all
  from RotateSide_white_yellow_commute [OF reachable_init d] reachable_init show ?thesis
    by (rule conjI [rotated])
qed

lemma cell_stickers_relabel [simp]: "cell_stickers (relabel d f c) = cell_stickers c"
proof (cases c)
  case Nil
  then show ?thesis by (simp add: relabel_def cell_stickers_def)
next
  case (Cons k slots)
  then show ?thesis by (simp add: relabel_def cell_stickers_def)
qed

lemma stickers_update:
  "cube_stickers (s\<lparr>cube := [[t0, t1, t2, t3, t4, t5, t6, t7],
                              [m0, m1, m2, m3, m4, m5, m6, m7],
                              [b0, b1, b2, b3, b4, b5, b6, b7]]\<rparr>) =
     mset (cell_stickers t0) + mset (cell_stickers t1) + mset (cell_stickers t2) + mset (cell_stickers t3) +
     mset (cell_stickers t4) + mset (cell_stickers t5) + mset (cell_stickers t6) + mset (cell_stickers t7) +
     mset (cell_stickers m0) + mset (cell_stickers m1) + mset (cell_stickers m2) + mset (cell_stickers m3) +
     mset (cell_stickers m4) + mset (cell_stickers m5) + mset (cell_stickers m6) + mset (cell_stickers m7) +
     mset (cell_stickers b0) + mset (cell_stickers b1) + mset (cell_stickers b2) + mset (cell_stickers b3) +
     mset (cell_stickers b4) + mset (cell_stickers b5) + mset (cell_stickers b6) + mset (cell_stickers b7)"
  by (simp add: cube_stickers_def ac_simps)

lemma stickers_turn:
  assumes wf: "cube_wf s"
    and f: "f \<in> {CUBE_WHITE, CUBE_YELLOW, CUBE_RED, CUBE_GREEN, CUBE_ORANGE, CUBE_BLUE}"
    and get: "side_get s f = Inr sd"
    and put: "side_put s f (ring_turn d f sd) = Inr s'"
  shows "cube_stickers s' = cube_stickers s"
proof -
  from wf obtain t0 t1 t2 t3 t4 t5 t6 t7 m0 m1 m2 m3 m4 m5 m6 m7 b0 b1 b2 b3 b4 b5 b6 b7
    where c: "cube s = [[t0, t1, t2, t3, t4, t5, t6, t7],
                        [m0, m1, m2, m3, m4, m5, m6, m7],
                        [b0, b1, b2, b3, b4, b5, b6, b7]]"
    by (rule cube_wf_explicit)
  from get have get': "side_get (s\<lparr>cube := cube s\<rparr>) f = Inr sd" by simp
  from put have put': "side_put (s\<lparr>cube := cube s\<rparr>) f (ring_turn d f sd) = Inr s'" by simp
  have eq: "cube_stickers s = cube_stickers (s\<lparr>cube := cube s\<rparr>)" by simp
  from f get' put' show ?thesis
    unfolding eq unfolding c
    by (cases rule: valid_side_cases; cases "d = 0")
       (auto simp: side_get_upd side_put_upd ring_turn_explicit stickers_update ac_simps)
qed

lemma RotateSide_stickers:
  assumes inv: "cube_inv s"
    and f: "f \<in> {CUBE_WHITE, CUBE_YELLOW, CUBE_RED, CUBE_GREEN, CUBE_ORANGE, CUBE_BLUE}"
    and rot: "RotateSide s f d = Inr s'"
  shows "cube_stickers s' = cube_stickers s"
proof -
  from side_get_inv [OF inv f] obtain sd where get: "side_get s f = Inr sd" by blast
  from RotateSide_inv(1) [OF inv f get, of d] rot
  have put: "side_put s f (ring_turn d f sd) = Inr s'" by simp
  show ?thesis
    by (rule stickers_turn [OF cube_inv_wf [OF inv] f get put])
qed

lemma reachable_stickers: "reachable s \<Longrightarrow> cube_stickers s = cube_stickers RubicsCube"
proof (induction rule: reachable.induct)
  case reachable_init
  show ?case by simp
next
  case (reachable_rotate s f d s')
  from RotateSide_stickers [OF reachable_inv [OF reachable_rotate.hyps(1)] reachable_rotate.hyps(2,4)]
    reachable_rotate.IH
  show ?case by simp
qed

lemma RubicsCube_stickers:
  "count (cube_stickers RubicsCube) c =
     (if c = CUBE_WHITE \<or> c = CUBE_YELLOW then 8
      else if c = CUBE_RED \<or> c = CUBE_GREEN \<or> c = CUBE_ORANGE \<or> c = CUBE_BLUE then 9
      else 0)"
  by (simp add: cube_stickers_def RubicsCube_def init_layers cell_defs cell_stickers_def)

text \<open>
  Claim C4, as the code has it.  After every finite sequence of successful \<open>RotateSide\<close>
  calls on the newly constructed cube, the multiset of the sticker colours stored in the
  cells of the three layers is the one of the new cube: 8 White, 8 Yellow and 9 each of
  Red, Green, Orange and Blue (the White and the Yellow centre are not stored: the
  cells \<open>_CUBE_WED\<close> and \<open>_CUBE_YED\<close> are not used), and no other colour.
\<close>

theorem RotateSide_keeps_stickers:
  assumes "reachable s"
  shows "cube_stickers s = cube_stickers RubicsCube \<and>
         count (cube_stickers s) c =
           (if c = CUBE_WHITE \<or> c = CUBE_YELLOW then 8
            else if c = CUBE_RED \<or> c = CUBE_GREEN \<or> c = CUBE_ORANGE \<or> c = CUBE_BLUE then 9
            else 0)"
  using reachable_stickers [OF assms] by (simp add: RubicsCube_stickers)

lemma RotateSide_red_clockwise:
  "RotateSide RubicsCube CUBE_RED ROTATE_CLOCKWISE = Inr red_turned"
  by code_simp

lemma red_turned_differs: "red_turned \<noteq> RubicsCube"
  by code_simp

lemma red_turned_reachable: "reachable red_turned"
  by (rule reachable_rotate [OF reachable_init _ _ RotateSide_red_clockwise]) simp_all

lemma RotateSide_green_counter_after_red:
  "\<exists>s. RotateSide red_turned CUBE_GREEN ROTATE_COUNTER = Inr s \<and> reachable s"
proof -
  have f: "CUBE_GREEN \<in> {CUBE_WHITE, CUBE_YELLOW, CUBE_RED, CUBE_GREEN, CUBE_ORANGE, CUBE_BLUE}"
    and d: "ROTATE_COUNTER \<in> {ROTATE_CLOCKWISE, ROTATE_COUNTER}"
    by simp_all
  have inv: "cube_inv red_turned"
    by (rule reachable_inv [OF red_turned_reachable])
  from side_get_inv [OF inv f] obtain sd where get: "side_get red_turned CUBE_GREEN = Inr sd"
    and ok: "ring_ok CUBE_GREEN sd" by blast
  obtain s where put: "side_put red_turned CUBE_GREEN (ring_turn ROTATE_COUNTER CUBE_GREEN sd) = Inr s"
    by (rule side_put_total [OF inv f ring_turn_ok [OF f ok]])
  with RotateSide_inv(1) [OF inv f get, of ROTATE_COUNTER]
  have r: "RotateSide red_turned CUBE_GREEN ROTATE_COUNTER = Inr s" by simp
  from reachable_rotate [OF red_turned_reachable f d r] r show ?thesis by blast
qed

theorem RotateSide_keeps_stickers_witness:
  "RotateSide RubicsCube CUBE_RED ROTATE_CLOCKWISE = Inr red_turned \<and>
   red_turned \<noteq> RubicsCube \<and> reachable red_turned \<and>
   cube_stickers red_turned = cube_stickers RubicsCube \<and>
   count (cube_stickers red_turned) CUBE_WHITE = 8 \<and>
   count (cube_stickers red_turned) CUBE_YELLOW = 8 \<and>
   count (cube_stickers red_turned) CUBE_RED = 9 \<and>
   count (cube_stickers red_turned) CUBE_GREEN = 9 \<and>
   count (cube_stickers red_turned) CUBE_ORANGE = 9 \<and>
   count (cube_stickers red_turned) CUBE_BLUE = 9 \<and>
   (\<exists>s. RotateSide red_turned CUBE_GREEN ROTATE_COUNTER = Inr s \<and> reachable s \<and>
      cube_stickers s = cube_stickers RubicsCube \<and>
      count (cube_stickers s) CUBE_WHITE = 8 \<and> count (cube_stickers s) CUBE_BLUE = 9)"
proof -
  note k = RotateSide_keeps_stickers [OF red_turned_reachable]
  from RotateSide_green_counter_after_red obtain s
    where r: "RotateSide red_turned CUBE_GREEN ROTATE_COUNTER = Inr s" and reach: "reachable s"
    by blast
  note k' = RotateSide_keeps_stickers [OF reach]
  have s1: "cube_stickers s = cube_stickers RubicsCube"
    by (rule k' [of CUBE_WHITE, THEN conjunct1])
  have s2: "count (cube_stickers s) CUBE_WHITE = 8"
    using k' [of CUBE_WHITE, THEN conjunct2] by simp
  have s3: "count (cube_stickers s) CUBE_BLUE = 9"
    using k' [of CUBE_BLUE, THEN conjunct2] by simp
  have t0: "cube_stickers red_turned = cube_stickers RubicsCube"
    by (rule k [of CUBE_WHITE, THEN conjunct1])
  have t1: "count (cube_stickers red_turned) CUBE_WHITE = 8"
    using k [of CUBE_WHITE, THEN conjunct2] by simp
  have t2: "count (cube_stickers red_turned) CUBE_YELLOW = 8"
    using k [of CUBE_YELLOW, THEN conjunct2] by simp
  have t3: "count (cube_stickers red_turned) CUBE_RED = 9"
    using k [of CUBE_RED, THEN conjunct2] by simp
  have t4: "count (cube_stickers red_turned) CUBE_GREEN = 9"
    using k [of CUBE_GREEN, THEN conjunct2] by simp
  have t5: "count (cube_stickers red_turned) CUBE_ORANGE = 9"
    using k [of CUBE_ORANGE, THEN conjunct2] by simp
  have t6: "count (cube_stickers red_turned) CUBE_BLUE = 9"
    using k [of CUBE_BLUE, THEN conjunct2] by simp
  from s1 s2 s3 r reach have ex: "\<exists>s. RotateSide red_turned CUBE_GREEN ROTATE_COUNTER = Inr s \<and>
      reachable s \<and> cube_stickers s = cube_stickers RubicsCube \<and>
      count (cube_stickers s) CUBE_WHITE = 8 \<and> count (cube_stickers s) CUBE_BLUE = 9"
    by blast
  show ?thesis
    by (intro conjI RotateSide_red_clockwise red_turned_differs red_turned_reachable
        t0 t1 t2 t3 t4 t5 t6 ex)
qed

text \<open>
  The claim as stated, nine stickers of each of the six colours, fails on the new cube:
  it stores eight White stickers.
\<close>

theorem nine_white_stickers_counterexample:
  "reachable RubicsCube \<and> count (cube_stickers RubicsCube) CUBE_WHITE = 8 \<and>
   count (cube_stickers RubicsCube) CUBE_WHITE \<noteq> 9"
  by (simp add: RubicsCube_stickers reachable_init)

lemma bnd_eq_Inr: "bnd m k = Inr y \<longleftrightarrow> (\<exists>v. m = Inr v \<and> k v = Inr y)"
  by (cases m) simp_all

lemma py_set_length: "py_set xs i v = Inr ys \<Longrightarrow> length ys = length xs"
  by (auto simp: py_set_def split: option.splits)

lemma side_assign_length:
  "side_assign sd a b c d e f g h = Inr sd1 \<Longrightarrow> length sd1 = length sd"
  unfolding side_assign_def bnd_eq_Inr
  by (elim exE conjE, (drule py_set_length)+, simp)

lemma rotate_faces_length:
  assumes "rotate_faces d f sd = Inr sd1"
  shows "length sd1 = length sd"
  using assms unfolding rotate_faces_def bnd_eq_Inr Let_def
  by (auto simp: bnd_eq_Inr split: prod.splits dest: side_assign_length)

lemma rotate_colors_length:
  assumes "rotate_colors d f sd = Inr sd1"
  shows "length sd1 = length sd"
  using assms unfolding rotate_colors_def bnd_eq_Inr
  by (auto split: if_splits dest: side_assign_length)

lemma ring_places_explicit:
  "ring_places 1 = {(0, 0), (0, 1), (0, 2), (0, 3), (0, 4), (0, 5), (0, 6), (0, 7)}"
  "ring_places 2 = {(2, 0), (2, 7), (2, 6), (2, 5), (2, 4), (2, 3), (2, 2), (2, 1)}"
  "ring_places 3 = {(0, 0), (0, 7), (1, 7), (2, 7), (2, 0), (2, 1), (1, 1), (0, 1)}"
  "ring_places 4 = {(0, 2), (0, 1), (1, 1), (2, 1), (2, 2), (2, 3), (1, 3), (0, 3)}"
  "ring_places 5 = {(0, 4), (0, 3), (1, 3), (2, 3), (2, 4), (2, 5), (1, 5), (0, 5)}"
  "ring_places 6 = {(0, 6), (0, 5), (1, 5), (2, 5), (2, 6), (2, 7), (1, 7), (0, 7)}"
  by (simp_all add: ring_places_def ring_layers_def side_tables)

lemma below3: "L < (3::nat) \<Longrightarrow> L = 0 \<or> L = 1 \<or> L = 2"
  by arith

lemma RotateSide_fails_or_puts:
  assumes wf: "cube_wf s"
    and f: "f \<in> {CUBE_WHITE, CUBE_YELLOW, CUBE_RED, CUBE_GREEN, CUBE_ORANGE, CUBE_BLUE}"
  shows "(\<exists>e. RotateSide s f d = Inl (e, s)) \<or>
         (\<exists>sd. length sd = 8 \<and> RotateSide s f d = side_put s f sd)"
proof -
  from wf obtain t0 t1 t2 t3 t4 t5 t6 t7 m0 m1 m2 m3 m4 m5 m6 m7 b0 b1 b2 b3 b4 b5 b6 b7
    where c: "cube s = [[t0, t1, t2, t3, t4, t5, t6, t7],
                        [m0, m1, m2, m3, m4, m5, m6, m7],
                        [b0, b1, b2, b3, b4, b5, b6, b7]]"
    by (rule cube_wf_explicit)
  from f obtain sd0 where get: "side_get s f = Inr sd0" and l0: "length sd0 = 8"
    by (cases rule: valid_side_cases) (simp_all add: side_get_explicit [OF c])
  show ?thesis
  proof (cases "rotate_faces d f sd0")
    case (Inl e)
    then show ?thesis by (simp add: RotateSide_def get)
  next
    case (Inr sd1)
    note r1 = this
    show ?thesis
    proof (cases "rotate_colors d f sd1")
      case (Inl e)
      then show ?thesis by (simp add: RotateSide_def get r1)
    next
      case (Inr sd2)
      from rotate_colors_length [OF Inr] rotate_faces_length [OF r1] l0
      have "length sd2 = 8" by simp
      moreover have "RotateSide s f d = side_put s f sd2"
        by (simp add: RotateSide_def get r1 Inr)
      ultimately show ?thesis by blast
    qed
  qed
qed

lemma frame_cells:
  assumes L: "L < 3" and i: "i < 8"
  shows "(L, i) \<notin> ring_places 1 \<Longrightarrow>
           [[x0, x1, x2, x3, x4, x5, x6, x7],
            [m0, m1, m2, m3, m4, m5, m6, m7],
            [b0, b1, b2, b3, b4, b5, b6, b7]] ! L ! i =
           [[t0, t1, t2, t3, t4, t5, t6, t7],
            [m0, m1, m2, m3, m4, m5, m6, m7],
            [b0, b1, b2, b3, b4, b5, b6, b7]] ! L ! i"
    and "(L, i) \<notin> ring_places 2 \<Longrightarrow>
           [[t0, t1, t2, t3, t4, t5, t6, t7],
            [m0, m1, m2, m3, m4, m5, m6, m7],
            [x0, x7, x6, x5, x4, x3, x2, x1]] ! L ! i =
           [[t0, t1, t2, t3, t4, t5, t6, t7],
            [m0, m1, m2, m3, m4, m5, m6, m7],
            [b0, b1, b2, b3, b4, b5, b6, b7]] ! L ! i"
    and "(L, i) \<notin> ring_places 3 \<Longrightarrow>
           [[x0, x7, t2, t3, t4, t5, t6, x1],
            [m0, x6, m2, m3, m4, m5, m6, x2],
            [x4, x5, b2, b3, b4, b5, b6, x3]] ! L ! i =
           [[t0, t1, t2, t3, t4, t5, t6, t7],
            [m0, m1, m2, m3, m4, m5, m6, m7],
            [b0, b1, b2, b3, b4, b5, b6, b7]] ! L ! i"
    and "(L, i) \<notin> ring_places 4 \<Longrightarrow>
           [[t0, x1, x0, x7, t4, t5, t6, t7],
            [m0, x2, m2, x6, m4, m5, m6, m7],
            [b0, x3, x4, x5, b4, b5, b6, b7]] ! L ! i =
           [[t0, t1, t2, t3, t4, t5, t6, t7],
            [m0, m1, m2, m3, m4, m5, m6, m7],
            [b0, b1, b2, b3, b4, b5, b6, b7]] ! L ! i"
    and "(L, i) \<notin> ring_places 5 \<Longrightarrow>
           [[t0, t1, t2, x1, x0, x7, t6, t7],
            [m0, m1, m2, x2, m4, x6, m6, m7],
            [b0, b1, b2, x3, x4, x5, b6, b7]] ! L ! i =
           [[t0, t1, t2, t3, t4, t5, t6, t7],
            [m0, m1, m2, m3, m4, m5, m6, m7],
            [b0, b1, b2, b3, b4, b5, b6, b7]] ! L ! i"
    and "(L, i) \<notin> ring_places 6 \<Longrightarrow>
           [[t0, t1, t2, t3, t4, x1, x0, x7],
            [m0, m1, m2, m3, m4, x2, m6, x6],
            [b0, b1, b2, b3, b4, x3, x4, x5]] ! L ! i =
           [[t0, t1, t2, t3, t4, t5, t6, t7],
            [m0, m1, m2, m3, m4, m5, m6, m7],
            [b0, b1, b2, b3, b4, b5, b6, b7]] ! L ! i"
  using below3 [OF L] below8 [OF i]
  by (elim disjE; simp add: ring_places_explicit)+

lemma side_put_frame:
  assumes wf: "cube_wf s"
    and f: "f \<in> {CUBE_WHITE, CUBE_YELLOW, CUBE_RED, CUBE_GREEN, CUBE_ORANGE, CUBE_BLUE}"
    and len: "length sd = 8"
  shows "\<exists>s'. side_put s f sd = Inr s' \<and> cube_wf s' \<and> cube_solved s' = cube_solved s \<and>
           (\<forall>L < 3. \<forall>i < 8. (L, i) \<notin> ring_places f \<longrightarrow> cube s' ! L ! i = cube s ! L ! i)"
proof -
  from wf obtain t0 t1 t2 t3 t4 t5 t6 t7 m0 m1 m2 m3 m4 m5 m6 m7 b0 b1 b2 b3 b4 b5 b6 b7
    where c: "cube s = [[t0, t1, t2, t3, t4, t5, t6, t7],
                        [m0, m1, m2, m3, m4, m5, m6, m7],
                        [b0, b1, b2, b3, b4, b5, b6, b7]]"
    by (rule cube_wf_explicit)
  from len obtain x0 x1 x2 x3 x4 x5 x6 x7 where sd: "sd = [x0, x1, x2, x3, x4, x5, x6, x7]"
    using length8_explicit by blast
  from f show ?thesis
  proof (cases rule: valid_side_cases)
    case 1
    show ?thesis unfolding 1 sd side_put_explicit(1) [OF c]
      by (simp add: cube_wf_def c frame_cells(1))
  next
    case 2
    show ?thesis unfolding 2 sd side_put_explicit(2) [OF c]
      by (simp add: cube_wf_def c frame_cells(2))
  next
    case 3
    show ?thesis unfolding 3 sd side_put_explicit(3) [OF c]
      by (simp add: cube_wf_def c frame_cells(3))
  next
    case 4
    show ?thesis unfolding 4 sd side_put_explicit(4) [OF c]
      by (simp add: cube_wf_def c frame_cells(4))
  next
    case 5
    show ?thesis unfolding 5 sd side_put_explicit(5) [OF c]
      by (simp add: cube_wf_def c frame_cells(5))
  next
    case 6
    show ?thesis unfolding 6 sd side_put_explicit(6) [OF c]
      by (simp add: cube_wf_def c frame_cells(6))
  qed
qed

lemma ring_places_card:
  assumes "f \<in> {CUBE_WHITE, CUBE_YELLOW, CUBE_RED, CUBE_GREEN, CUBE_ORANGE, CUBE_BLUE}"
  shows "card (ring_places f) = 8"
  using assms by (cases rule: valid_side_cases) (simp_all add: ring_places_explicit)

lemma ring_places_bounds:
  assumes "f \<in> {CUBE_WHITE, CUBE_YELLOW, CUBE_RED, CUBE_GREEN, CUBE_ORANGE, CUBE_BLUE}"
    and "(L, i) \<in> ring_places f"
  shows "L < 3 \<and> i < 8"
  using assms by (cases rule: valid_side_cases) (auto simp: ring_places_explicit)

text \<open>
  Claim C10.  On a cube of three layers of eight cells, for each of the six colours \<open>f\<close>
  and every direction, \<open>RotateSide(f, d)\<close> writes only the ring of \<open>f\<close>: the eight places
  that \<open>_side_put\<close> selects, the layer of each clock position with the index that
  \<open>_SIDE_INDEX[f]\<close> lists for it.  Whether the call returns or fails, the object it
  leaves has every other cell of the three layers as before, still three layers of
  eight cells, and the same \<open>_cube_solved\<close>.
\<close>

theorem RotateSide_writes_ring_only:
  assumes wf: "cube_wf s"
    and f: "f \<in> {CUBE_WHITE, CUBE_YELLOW, CUBE_RED, CUBE_GREEN, CUBE_ORANGE, CUBE_BLUE}"
  shows "card (ring_places f) = 8 \<and> ring_places f \<subseteq> {..<3} \<times> {..<8} \<and>
         cube_solved (state_after (RotateSide s f d)) = cube_solved s \<and>
         cube_wf (state_after (RotateSide s f d)) \<and>
         (\<forall>L < 3. \<forall>i < 8. (L, i) \<notin> ring_places f \<longrightarrow>
            cube (state_after (RotateSide s f d)) ! L ! i = cube s ! L ! i)"
proof -
  have places: "ring_places f \<subseteq> {..<3} \<times> {..<8}"
    using ring_places_bounds [OF f] by auto
  have rest: "cube_solved (state_after (RotateSide s f d)) = cube_solved s \<and>
         cube_wf (state_after (RotateSide s f d)) \<and>
         (\<forall>L < 3. \<forall>i < 8. (L, i) \<notin> ring_places f \<longrightarrow>
            cube (state_after (RotateSide s f d)) ! L ! i = cube s ! L ! i)"
    using RotateSide_fails_or_puts [OF wf f, of d]
  proof (elim disjE exE conjE)
    fix e assume "RotateSide s f d = Inl (e, s)"
    then show ?thesis by (simp add: state_after_def wf)
  next
    fix sd assume len: "length sd = 8" and r: "RotateSide s f d = side_put s f sd"
    from side_put_frame [OF wf f len] obtain s' where "side_put s f sd = Inr s'"
      and "cube_wf s'" and "cube_solved s' = cube_solved s"
      and "\<forall>L < 3. \<forall>i < 8. (L, i) \<notin> ring_places f \<longrightarrow> cube s' ! L ! i = cube s ! L ! i"
      by blast
    then show ?thesis by (simp add: r state_after_def)
  qed
  from ring_places_card [OF f] places rest show ?thesis by blast
qed

theorem RotateSide_writes_ring_only_witness:
  "cube_wf RubicsCube \<and>
   state_after (RotateSide RubicsCube CUBE_RED ROTATE_CLOCKWISE) = red_turned \<and>
   cube_solved red_turned = cube_solved RubicsCube \<and>
   (0, 2) \<notin> ring_places CUBE_RED \<and> cube red_turned ! 0 ! 2 = cube RubicsCube ! 0 ! 2 \<and>
   (1, 4) \<notin> ring_places CUBE_RED \<and> cube red_turned ! 1 ! 4 = cube RubicsCube ! 1 ! 4 \<and>
   (0, 0) \<in> ring_places CUBE_RED \<and> cube red_turned ! 0 ! 0 \<noteq> cube RubicsCube ! 0 ! 0"
proof -
  have f: "CUBE_RED \<in> {CUBE_WHITE, CUBE_YELLOW, CUBE_RED, CUBE_GREEN, CUBE_ORANGE, CUBE_BLUE}"
    by simp
  have sa: "state_after (RotateSide RubicsCube CUBE_RED ROTATE_CLOCKWISE) = red_turned"
    by (simp add: RotateSide_red_clockwise state_after_def)
  note t = RotateSide_writes_ring_only [OF RubicsCube_wf f, of ROTATE_CLOCKWISE, unfolded sa]
  from t have solved: "cube_solved red_turned = cube_solved RubicsCube"
    by blast
  from t have fr: "\<forall>L < 3. \<forall>i < 8. (L, i) \<notin> ring_places CUBE_RED \<longrightarrow>
      cube red_turned ! L ! i = cube RubicsCube ! L ! i"
    by blast
  have o1: "(0, 2) \<notin> ring_places CUBE_RED" and o2: "(1, 4) \<notin> ring_places CUBE_RED"
    and i1: "(0, 0) \<in> ring_places CUBE_RED"
    by (simp_all add: ring_places_explicit)
  from fr [rule_format, of 0 2] o1 have c1: "cube red_turned ! 0 ! 2 = cube RubicsCube ! 0 ! 2"
    by simp
  from fr [rule_format, of 1 4] o2 have c2: "cube red_turned ! 1 ! 4 = cube RubicsCube ! 1 ! 4"
    by simp
  have ch: "cube red_turned ! 0 ! 0 \<noteq> cube RubicsCube ! 0 ! 0"
    by (simp add: red_turned_def RubicsCube_def init_layers cell_defs)
  show ?thesis
    by (intro conjI RubicsCube_wf sa solved o1 c1 o2 c2 i1 ch)
qed

lemma side_edge_face_get_direction:
  "d \<noteq> ROTATE_CLOCKWISE \<Longrightarrow> side_edge_face_get d f c = side_edge_face_get ROTATE_COUNTER f c"
  by (simp add: side_edge_defs)

lemma rotate_face_edge_direction:
  assumes "d \<noteq> ROTATE_CLOCKWISE"
  shows "rotate_face_edge f d cl e cr = rotate_face_edge f ROTATE_COUNTER cl e cr"
  by (simp add: rotate_face_edge_def side_edge_face_get_direction [OF assms])

lemma rotate_faces_direction:
  assumes "d \<noteq> ROTATE_CLOCKWISE"
  shows "rotate_faces d f sd = rotate_faces ROTATE_COUNTER f sd"
  by (simp add: rotate_faces_def rotate_face_edge_direction [OF assms])

lemma rotate_colors_direction:
  "d \<noteq> ROTATE_CLOCKWISE \<Longrightarrow> rotate_colors d f sd = rotate_colors ROTATE_COUNTER f sd"
  by (simp add: rotate_colors_def)

lemma RotateSide_direction:
  assumes "d \<noteq> ROTATE_CLOCKWISE"
  shows "RotateSide s f d = RotateSide s f ROTATE_COUNTER"
  unfolding RotateSide_def rotate_faces_direction [OF assms] rotate_colors_direction [OF assms] ..

lemma side_index_invalid:
  "side_index 0 0 = Inl TypeError" "side_index (-7) 0 = Inl TypeError"
  "6 < f \<Longrightarrow> side_index f 0 = Inl IndexError"
  "f < -7 \<Longrightarrow> side_index f 0 = Inl IndexError"
  by (simp_all add: side_index_def SIDE_INDEX_def py_get_def py_index_def)

lemma side_get_first_slot:
  assumes "cube_wf s" and "side_index f 0 = Inl e"
  shows "side_get s f = Inl e"
proof -
  from assms(1) obtain t0 t1 t2 t3 t4 t5 t6 t7 m0 m1 m2 m3 m4 m5 m6 m7 b0 b1 b2 b3 b4 b5 b6 b7
    where c: "cube s = [[t0, t1, t2, t3, t4, t5, t6, t7],
                        [m0, m1, m2, m3, m4, m5, m6, m7],
                        [b0, b1, b2, b3, b4, b5, b6, b7]]"
    by (rule cube_wf_explicit)
  have slot: "side_get_slot lay f 0 sd = Inl e" for lay sd
    by (simp add: side_get_slot_def assms(2))
  show ?thesis
  proof (cases "f = 1 \<or> f = 2")
    case True
    with assms(2) show ?thesis by (auto simp: side_tables)
  next
    case False
    then show ?thesis by (simp add: side_get_def c slot)
  qed
qed

lemma RotateSide_returns:
  assumes "reachable s"
    and f: "f \<in> {CUBE_WHITE, CUBE_YELLOW, CUBE_RED, CUBE_GREEN, CUBE_ORANGE, CUBE_BLUE}"
  shows "\<exists>s'. RotateSide s f d = Inr s'"
proof -
  have inv: "cube_inv s" by (rule reachable_inv [OF assms(1)])
  from side_get_inv [OF inv f] obtain sd where get: "side_get s f = Inr sd"
    and ok: "ring_ok f sd" by blast
  obtain s' where "side_put s f (ring_turn d f sd) = Inr s'"
    by (rule side_put_total [OF inv f ring_turn_ok [OF f ok]])
  with RotateSide_inv(1) [OF inv f get, of d] show ?thesis by simp
qed

text \<open>
  Claim C9, as the code has it.  \<open>RotateSide\<close> checks neither argument.  On a cube of three
  layers of eight cells a face of 0, above 6 or below -6 fails in \<open>_side_get\<close>, at the
  subscript \<open>_SIDE_INDEX[ side_id_P ][ 0 ]\<close>, before anything is written: with
  \<open>TypeError\<close> for 0 and -7 (the entry is the integer 0) and with \<open>IndexError\<close> above 6
  and below -7, and the object at the failure is the one before the call.  The direction
  is only ever compared with \<open>ROTATE_CLOCKWISE\<close>: every other direction does what
  \<open>ROTATE_COUNTER\<close> does, and on a reachable cube the call with one of the six colours
  returns for every direction.
\<close>

theorem RotateSide_invalid_arguments:
  assumes "cube_wf s"
  shows "(f = 0 \<or> f = - 7 \<longrightarrow> RotateSide s f d = Inl (TypeError, s)) \<and>
         (6 < f \<or> f < - 7 \<longrightarrow> RotateSide s f d = Inl (IndexError, s)) \<and>
         (d \<noteq> ROTATE_CLOCKWISE \<longrightarrow> RotateSide s f d = RotateSide s f ROTATE_COUNTER) \<and>
         (reachable s \<and> f \<in> {CUBE_WHITE, CUBE_YELLOW, CUBE_RED, CUBE_GREEN, CUBE_ORANGE, CUBE_BLUE} \<longrightarrow>
            (\<exists>s'. RotateSide s f d = Inr s'))"
proof (intro conjI impI)
  assume "f = 0 \<or> f = - 7"
  then have "side_index f 0 = Inl TypeError"
    by (auto simp: side_index_invalid)
  from side_get_first_slot [OF assms this] show "RotateSide s f d = Inl (TypeError, s)"
    by (simp add: RotateSide_def)
next
  assume "6 < f \<or> f < - 7"
  then have "side_index f 0 = Inl IndexError"
    by (auto simp: side_index_invalid)
  from side_get_first_slot [OF assms this] show "RotateSide s f d = Inl (IndexError, s)"
    by (simp add: RotateSide_def)
next
  assume "d \<noteq> ROTATE_CLOCKWISE"
  then show "RotateSide s f d = RotateSide s f ROTATE_COUNTER"
    by (rule RotateSide_direction)
next
  assume "reachable s \<and> f \<in> {CUBE_WHITE, CUBE_YELLOW, CUBE_RED, CUBE_GREEN, CUBE_ORANGE, CUBE_BLUE}"
  then show "\<exists>s'. RotateSide s f d = Inr s'"
    by (blast intro: RotateSide_returns)
qed

theorem RotateSide_invalid_arguments_witness:
  "cube_wf RubicsCube \<and>
   RotateSide RubicsCube 0 ROTATE_CLOCKWISE = Inl (TypeError, RubicsCube) \<and>
   RotateSide RubicsCube (- 7) ROTATE_COUNTER = Inl (TypeError, RubicsCube) \<and>
   RotateSide RubicsCube 7 ROTATE_CLOCKWISE = Inl (IndexError, RubicsCube) \<and>
   RotateSide RubicsCube (- 8) ROTATE_COUNTER = Inl (IndexError, RubicsCube) \<and>
   RotateSide RubicsCube CUBE_RED 2 = RotateSide RubicsCube CUBE_RED ROTATE_COUNTER \<and>
   reachable RubicsCube \<and> (\<exists>s'. RotateSide RubicsCube CUBE_RED 2 = Inr s')"
proof -
  note t = RotateSide_invalid_arguments [OF RubicsCube_wf]
  have a: "RotateSide RubicsCube 0 ROTATE_CLOCKWISE = Inl (TypeError, RubicsCube)"
    using t [of 0 ROTATE_CLOCKWISE] by simp
  have b: "RotateSide RubicsCube (- 7) ROTATE_COUNTER = Inl (TypeError, RubicsCube)"
    using t [of "- 7" ROTATE_COUNTER] by simp
  have c: "RotateSide RubicsCube 7 ROTATE_CLOCKWISE = Inl (IndexError, RubicsCube)"
    using t [of 7 ROTATE_CLOCKWISE] by simp
  have d: "RotateSide RubicsCube (- 8) ROTATE_COUNTER = Inl (IndexError, RubicsCube)"
    using t [of "- 8" ROTATE_COUNTER] by simp
  have e: "RotateSide RubicsCube CUBE_RED 2 = RotateSide RubicsCube CUBE_RED ROTATE_COUNTER"
    using t [of CUBE_RED 2] by simp
  have f: "CUBE_RED \<in> {CUBE_WHITE, CUBE_YELLOW, CUBE_RED, CUBE_GREEN, CUBE_ORANGE, CUBE_BLUE}"
    by simp
  have g: "\<exists>s'. RotateSide RubicsCube CUBE_RED 2 = Inr s'"
    using t [of CUBE_RED 2] reachable_init f by blast
  show ?thesis
    by (intro conjI RubicsCube_wf a b c d e g reachable_init)
qed

text \<open>
  The claim as stated fails for the direction: with the direction 2, which is neither
  \<open>ROTATE_CLOCKWISE\<close> nor \<open>ROTATE_COUNTER\<close>, the call on the cube that
  \<open>RotateSide( CUBE_RED, ROTATE_CLOCKWISE )\<close> left returns and has turned the red face
  back, to the newly constructed cube; on the newly constructed cube it returns too, and
  the cube is no longer the one before.  It fails for the face as well: -1 is none of the
  six colours, and the call with it returns.
\<close>

theorem RotateSide_direction_two_counterexample:
  "RotateSide red_turned CUBE_RED 2 = Inr RubicsCube \<and> red_turned \<noteq> RubicsCube \<and>
   \<not> isl (RotateSide RubicsCube CUBE_RED 2) \<and>
   state_after (RotateSide RubicsCube CUBE_RED 2) \<noteq> RubicsCube \<and>
   \<not> isl (RotateSide RubicsCube (- 1) ROTATE_CLOCKWISE)"
  by code_simp

text \<open>
  Claim C8.  The two reads of the colour a cell shows, \<open>_side_edge_color_get\<close> and
  \<open>_side_corner_color_get\<close>, exit when the face asked for is none of the faces the cell
  is bound to.  The remap step does not: \<open>_rotate_face_edge\<close> has no branch for an edge
  bound to neither face, and returns with its three cells as they were.  So
  \<open>RotateSide( -1, ROTATE_CLOCKWISE )\<close> on the newly constructed cube, which reads the
  ring of Blue through the subscript -1 of \<open>_SIDE_INDEX\<close>, finds no cell bound to the
  face -1, remaps nothing, and returns with the cells of that ring moved by two places
  and bound to the faces they had: the edge of White and Blue now lies in the middle
  layer.
\<close>

theorem rotate_face_edge_unbound_face_returns:
  "side_edge_color_get CUBE_WHITE [CUBE_YG] 0 = Inl SystemExit \<and>
   side_corner_color_get CUBE_WHITE [CUBE_YGR] 0 = Inl SystemExit \<and>
   rotate_face_edge CUBE_WHITE ROTATE_CLOCKWISE CUBE_YGR CUBE_YG CUBE_YOG =
     Inr (CUBE_YGR, CUBE_YG, CUBE_YOG) \<and>
   side_edge_color_get (- 1) [CUBE_WB] 0 = Inl SystemExit \<and>
   rotate_face_edge (- 1) ROTATE_CLOCKWISE CUBE_WBR CUBE_WB CUBE_WOB =
     Inr (CUBE_WBR, CUBE_WB, CUBE_WOB) \<and>
   RotateSide RubicsCube (- 1) ROTATE_CLOCKWISE =
     Inr (RubicsCube\<lparr>cube :=
       [[CUBE_WR, CUBE_WRG, CUBE_WG, CUBE_WGO, CUBE_WO, CUBE_WBR, CUBE_BRM, CUBE_YRB],
        [CUBE_RED_ID, CUBE_RGM, CUBE_GED, CUBE_GOM, CUBE_OED, CUBE_WB, CUBE_BED, CUBE_YB],
        [CUBE_YR, CUBE_YGR, CUBE_YG, CUBE_YOG, CUBE_YO, CUBE_WOB, CUBE_OBM, CUBE_YBO]]\<rparr>)"
  by code_simp

end
